theory Spec2Isabelle
  imports Complex_Main
begin

section \<open>JavaScript values\<close>

text \<open>
  A JavaScript number is a finite value, \<^verbatim>\<open>NaN\<close> or an infinity (finite values are
  modelled as \<open>real\<close>: the rounding and the overflow of doubles are not modelled). A
  \<open>jsval\<close> is a value as \<^verbatim>\<open>JSON.parse\<close> builds it: \<^verbatim>\<open>null\<close>, a boolean, a number, a
  string, an array, or an object as the list of its properties. A number read from a
  request body can be infinite (an overflowing literal), so infinities do occur in such
  values.
\<close>

datatype number = Finite real | NaN | PosInfinity | NegInfinity

datatype jsval =
  VNull | VBool bool | VNumber number | VString string
| VArray "jsval list" | VObject "(string \<times> jsval) list"

section \<open>Shared input record\<close>

text \<open>
  \<^verbatim>\<open>interface GameInput { type: 'drop'; x: number; timestamp: number; fruitType?: ... }\<close>
  is declared in both \<^verbatim>\<open>engine.ts\<close> and \<^verbatim>\<open>services/replay.ts\<close>. The record is
  polymorphic in the types of \<^verbatim>\<open>x\<close>, of \<^verbatim>\<open>timestamp\<close> and of the fruit tag, so that each
  module uses it at the values it really handles. The route checks \<^verbatim>\<open>type\<close> and \<^verbatim>\<open>x\<close>
  only, so in the engine and in the codec \<^verbatim>\<open>x\<close> is a finite number, while \<^verbatim>\<open>timestamp\<close>
  is any value or absent; the analyzer computes with timestamps, and is modelled on
  finite numbers. An absent property is \<open>None\<close>. \<open>in_rest\<close> holds the other properties of
  the object the client sent, which the spread \<^verbatim>\<open>{ ...input }\<close> copies.
\<close>

record ('n, 't, 'f) GameInput =
  in_type :: string
  in_x :: 'n
  in_timestamp :: 't
  in_fruitType :: "'f option"
  in_rest :: "(string \<times> jsval) list"

section \<open>Anti-cheat analyzer (services/replay.ts)\<close>

record Analysis =
  suspicionScore :: int
  flags :: "string list"

definition minInterval :: real where
  "minInterval = 500"

text \<open>\<^verbatim>\<open>inputs[i].timestamp - inputs[i - 1].timestamp\<close> for \<open>i = 1, ..., n - 1\<close>, in order.\<close>

fun intervalsOf :: "real list \<Rightarrow> real list" where
  "intervalsOf (a # b # rest) = (b - a) # intervalsOf (b # rest)"
| "intervalsOf _ = []"

text \<open>
  The template literal \<^verbatim>\<open>`Rapid inputs detected (${interval}ms interval)`\<close>; the
  number-to-string conversion of the language is the parameter \<open>numToString\<close>.
\<close>

definition rapidFlag :: "(real \<Rightarrow> string) \<Rightarrow> real \<Rightarrow> string" where
  "rapidFlag numToString interval =
     ''Rapid inputs detected ('' @ numToString interval @ ''ms interval)''"

text \<open>Check 1: one pass of the loop body, for one interval.\<close>

definition rapidStep :: "(real \<Rightarrow> string) \<Rightarrow> real \<Rightarrow> int \<times> string list \<Rightarrow> int \<times> string list" where
  "rapidStep numToString interval acc =
     (if interval < minInterval
      then (fst acc + 10, snd acc @ [rapidFlag numToString interval])
      else acc)"

definition checkRapid :: "(real \<Rightarrow> string) \<Rightarrow> real list \<Rightarrow> int \<times> string list \<Rightarrow> int \<times> string list" where
  "checkRapid numToString ts acc = fold (rapidStep numToString) (intervalsOf ts) acc"

text \<open>Check 2: \<^verbatim>\<open>reduce\<close> is a left fold from the initial value 0.\<close>

definition avgInterval :: "real list \<Rightarrow> real" where
  "avgInterval intervals = foldl (\<lambda>a b. a + b) 0 intervals / real (length intervals)"

definition variance :: "real list \<Rightarrow> real" where
  "variance intervals =
     foldl (\<lambda>total val. total + (val - avgInterval intervals) ^ 2) 0 intervals
       / real (length intervals)"

definition checkRegular :: "nat \<Rightarrow> real list \<Rightarrow> int \<times> string list \<Rightarrow> int \<times> string list" where
  "checkRegular n ts acc =
     (if n > 5 then
        (let intervals = intervalsOf ts;
             stdDev = sqrt (variance intervals)
         in if stdDev < 50 \<and> length intervals > 10
            then (fst acc + 30, snd acc @ [''Suspiciously regular timing pattern''])
            else acc)
      else acc)"

text \<open>Check 3: \<^verbatim>\<open>Math.round\<close> rounds half up; the \<^verbatim>\<open>Set\<close> keeps distinct values.\<close>

definition mathRound :: "real \<Rightarrow> int" where
  "mathRound v = \<lfloor>v + 1 / 2\<rfloor>"

definition uniquePositions :: "real list \<Rightarrow> nat" where
  "uniquePositions xPositions = card (set (map (\<lambda>x. mathRound (x * 100)) xPositions))"

definition checkPositions :: "nat \<Rightarrow> real list \<Rightarrow> int \<times> string list \<Rightarrow> int \<times> string list" where
  "checkPositions n xPositions acc =
     (if n > 10 \<and> uniquePositions xPositions < 3
      then (fst acc + 20, snd acc @ [''Limited position variety''])
      else acc)"

text \<open>Check 4: only reached with a non-empty log, so both index reads are in range.\<close>

definition checkDuration :: "nat \<Rightarrow> real list \<Rightarrow> int \<times> string list \<Rightarrow> int \<times> string list" where
  "checkDuration n ts acc =
     (if n > 0 then
        (let gameDuration = ts ! (n - 1) - ts ! 0;
             expectedMinDuration = real n * minInterval
         in if gameDuration < expectedMinDuration * (1 / 2)
            then (fst acc + 25, snd acc @ [''Game duration too short for input count''])
            else acc)
      else acc)"

definition analyzeReplay :: "(real \<Rightarrow> string) \<Rightarrow> (real, real, 'f) GameInput list \<Rightarrow> Analysis" where
  "analyzeReplay numToString inputs =
     (if length inputs = 0
      then \<lparr>suspicionScore = 0, flags = [''No inputs recorded'']\<rparr>
      else
        (let ts = map in_timestamp inputs;
             n = length inputs;
             acc1 = checkRapid numToString ts (0, []);
             acc2 = checkRegular n ts acc1;
             acc3 = checkPositions n (map in_x inputs) acc2;
             acc4 = checkDuration n ts acc3
         in \<lparr>suspicionScore = min 100 (fst acc4), flags = snd acc4\<rparr>))"

definition shouldFlagForReview :: "Analysis \<Rightarrow> bool" where
  "shouldFlagForReview analysis = (suspicionScore analysis \<ge> 50)"

subsection \<open>The empty log\<close>

text \<open>
  C10. The analyzer applied to the empty input log returns suspicion score 0 and the
  single flag \<^verbatim>\<open>'No inputs recorded'\<close>; the review predicate does not hold of that
  result, although it carries a flag.
\<close>

theorem analyzeReplay_empty:
  "analyzeReplay numToString [] = \<lparr>suspicionScore = 0, flags = [''No inputs recorded'']\<rparr>
   \<and> \<not> shouldFlagForReview (analyzeReplay numToString [])
   \<and> flags (analyzeReplay numToString []) \<noteq> []"
  by (simp add: analyzeReplay_def shouldFlagForReview_def)


subsection \<open>The regular 20-drop log\<close>

lemma length_intervalsOf: "length (intervalsOf ts) = length ts - 1"
  by (induction ts rule: intervalsOf.induct) auto

lemma nth_intervalsOf: "Suc i < length ts \<Longrightarrow> intervalsOf ts ! i = ts ! Suc i - ts ! i"
proof (induction ts arbitrary: i rule: intervalsOf.induct)
  case (1 a b rest)
  then show ?case by (cases i) auto
qed auto

lemma intervalsOf_regular:
  assumes "\<forall>i. Suc i < length ts \<longrightarrow> ts ! Suc i - ts ! i = d"
  shows "intervalsOf ts = replicate (length ts - 1) d"
  by (rule nth_equalityI) (use assms in \<open>auto simp: length_intervalsOf nth_intervalsOf\<close>)

lemma fold_rapidStep_replicate:
  "d < minInterval \<Longrightarrow>
   fold (rapidStep f) (replicate k d) acc = (fst acc + 10 * int k, snd acc @ replicate k (rapidFlag f d))"
  by (induction k arbitrary: acc) (auto simp: rapidStep_def replicate_append_same)

lemma foldl_add_replicate: "foldl (\<lambda>a b. a + b) s (replicate k (d::real)) = s + real k * d"
  by (induction k arbitrary: s) (auto simp: algebra_simps)

lemma avgInterval_replicate: "k > 0 \<Longrightarrow> avgInterval (replicate k d) = d"
  by (simp add: avgInterval_def foldl_add_replicate)

lemma foldl_sq_replicate: "foldl (\<lambda>total val. total + (val - d) ^ 2) s (replicate k (d::real)) = s"
  by (induction k arbitrary: s) auto

lemma variance_replicate: "k > 0 \<Longrightarrow> variance (replicate k d) = 0"
  by (simp add: variance_def avgInterval_replicate foldl_sq_replicate)

lemma uniquePositions_replicate: "k > 0 \<Longrightarrow> uniquePositions (replicate k x) = 1"
  by (simp add: uniquePositions_def)

lemma checkDuration_cases:
  "checkDuration n ts acc = acc \<or>
   checkDuration n ts acc = (fst acc + 25, snd acc @ [''Game duration too short for input count''])"
  by (simp add: checkDuration_def Let_def)

text \<open>
  C9. For a log of 20 drops whose consecutive timestamps are exactly 100 ms apart and whose
  x positions are all equal, the analyzer's score reaches the review threshold (so
  \<open>shouldFlagForReview\<close> holds), does not exceed the cap 100, and the flag list holds both
  the regular-timing flag and the limited-position-variety flag.
\<close>

theorem analyzeReplay_regular_log:
  assumes len: "length inputs = 20"
    and gaps: "\<forall>i<19. in_timestamp (inputs ! Suc i) - in_timestamp (inputs ! i) = 100"
    and same: "\<forall>i<20. in_x (inputs ! i) = in_x (inputs ! 0)"
  shows "shouldFlagForReview (analyzeReplay numToString inputs)
     \<and> suspicionScore (analyzeReplay numToString inputs) \<le> 100
     \<and> ''Suspiciously regular timing pattern'' \<in> set (flags (analyzeReplay numToString inputs))
     \<and> ''Limited position variety'' \<in> set (flags (analyzeReplay numToString inputs))"
proof -
  let ?ts = "map in_timestamp inputs"
  have iv: "intervalsOf ?ts = replicate 19 100"
    using intervalsOf_regular[of ?ts 100] len gaps by simp
  have xs: "map in_x inputs = replicate 20 (in_x (inputs ! 0))"
  proof (rule nth_equalityI)
    show "length (map in_x inputs) = length (replicate 20 (in_x (inputs ! 0)))"
      by (simp add: len)
  next
    fix i assume "i < length (map in_x inputs)"
    then have i: "i < 20" by (simp add: len)
    have "map in_x inputs ! i = in_x (inputs ! i)"
      using i len by (simp only: nth_map)
    moreover have "replicate 20 (in_x (inputs ! 0)) ! i = in_x (inputs ! 0)"
      using i by (rule nth_replicate)
    ultimately show "map in_x inputs ! i = replicate 20 (in_x (inputs ! 0)) ! i"
      using same[rule_format, OF i] by (simp only:)
  qed
  have a1: "checkRapid numToString ?ts (0, []) = (190, replicate 19 (rapidFlag numToString 100))"
  proof -
    have "(100::real) < minInterval" by (simp add: minInterval_def)
    from fold_rapidStep_replicate[OF this, of numToString 19 "(0, [])"] show ?thesis
      unfolding checkRapid_def iv by simp
  qed
  have a2: "checkRegular 20 ?ts (190, replicate 19 (rapidFlag numToString 100))
      = (220, replicate 19 (rapidFlag numToString 100) @ [''Suspiciously regular timing pattern''])"
    by (simp add: checkRegular_def iv variance_replicate)
  have a3: "checkPositions 20 (map in_x inputs)
        (220, replicate 19 (rapidFlag numToString 100) @ [''Suspiciously regular timing pattern''])
      = (240, replicate 19 (rapidFlag numToString 100)
               @ [''Suspiciously regular timing pattern'', ''Limited position variety''])"
    by (simp add: checkPositions_def xs uniquePositions_replicate)
  let ?acc3 = "(240::int, replicate 19 (rapidFlag numToString 100)
               @ [''Suspiciously regular timing pattern'', ''Limited position variety''])"
  have res: "analyzeReplay numToString inputs
      = \<lparr>suspicionScore = min 100 (fst (checkDuration 20 ?ts ?acc3)),
         flags = snd (checkDuration 20 ?ts ?acc3)\<rparr>"
    using len by (simp add: analyzeReplay_def Let_def a1 a2 a3)
  from checkDuration_cases[of 20 ?ts ?acc3] show ?thesis
    unfolding res shouldFlagForReview_def by auto
qed

text \<open>The scenario's log at the concrete positions \<open>x = 1/2\<close> and times \<open>0, 100, ..., 1900\<close>.\<close>

definition log20 :: "(real, real, string) GameInput list" where
  "log20 = map (\<lambda>i. \<lparr>in_type = ''drop'', in_x = 1 / 2, in_timestamp = 100 * real i, in_fruitType = None, in_rest = []\<rparr>) [0..<20]"


lemma log20_nth: "i < 20 \<Longrightarrow> log20 ! i = \<lparr>in_type = ''drop'', in_x = 1 / 2, in_timestamp = 100 * real i, in_fruitType = None, in_rest = []\<rparr>"
  unfolding log20_def by (simp only: nth_map length_upt nth_upt) simp

lemma log20_len: "length log20 = 20" by (simp add: log20_def)

theorem analyzeReplay_regular_log_witness:
  "length log20 = 20
   \<and> in_timestamp (log20 ! 1) - in_timestamp (log20 ! 0) = 100
   \<and> in_x (log20 ! 19) = in_x (log20 ! 0)
   \<and> shouldFlagForReview (analyzeReplay (\<lambda>r. ''100'') log20)
   \<and> ''Limited position variety'' \<in> set (flags (analyzeReplay (\<lambda>r. ''100'') log20))"
proof -
  have gaps: "\<forall>i<19. in_timestamp (log20 ! Suc i) - in_timestamp (log20 ! i) = 100"
  proof (intro allI impI)
    fix i :: nat assume "i < 19"
    then have "i < 20" "Suc i < 20" by simp_all
    then show "in_timestamp (log20 ! Suc i) - in_timestamp (log20 ! i) = 100"
      by (simp only: log20_nth) simp
  qed
  have same: "\<forall>i<20. in_x (log20 ! i) = in_x (log20 ! 0)"
  proof (intro allI impI)
    fix i :: nat assume "i < 20"
    then show "in_x (log20 ! i) = in_x (log20 ! 0)"
      using log20_nth[of i] log20_nth[of 0] by simp
  qed
  have g0: "in_timestamp (log20 ! 1) - in_timestamp (log20 ! 0) = 100"
    using gaps[rule_format, of 0] by simp
  have s19: "in_x (log20 ! 19) = in_x (log20 ! 0)"
    using same[rule_format, of 19] by simp
  from analyzeReplay_regular_log[OF log20_len gaps same, of "\<lambda>r. ''100''"] log20_len g0 s19
  show ?thesis by (simp only: simp_thms)
qed


section \<open>Simulation engine (game/engine.ts)\<close>

text \<open>
  Numbers: timestamps (\<^verbatim>\<open>Date.now()\<close>), the score, the multiplier and point values are
  integers and are modelled as \<open>int\<close>; positions, velocities and radii are modelled as
  \<open>real\<close> (the rounding of IEEE doubles is not modelled). Every call of \<^verbatim>\<open>Date.now()\<close>
  and of \<^verbatim>\<open>Math.random()\<close> is an argument of the operation that makes it, in the order
  of the calls. \<^verbatim>\<open>uuidv4()\<close> is a supply of fresh identifiers: the \<open>n\<close>-th identifier
  drawn by an engine is the number \<open>n\<close>, counted in the field \<open>uuidsDrawn\<close>.
\<close>

subsection \<open>Fruit taxonomy\<close>

datatype FruitType =
  cherry | strawberry | grape | persimmon | apple | pear | peach | pineapple | melon | watermelon

definition FRUIT_SEQUENCE :: "FruitType list" where
  "FRUIT_SEQUENCE =
     [cherry, strawberry, grape, persimmon, apple, pear, peach, pineapple, melon, watermelon]"

record FruitConfig =
  cfg_type :: FruitType
  cfg_radius :: real
  cfg_points :: int

fun FRUIT_CONFIGS :: "FruitType \<Rightarrow> FruitConfig" where
  "FRUIT_CONFIGS cherry     = \<lparr>cfg_type = cherry,     cfg_radius = 13, cfg_points = 2\<rparr>"
| "FRUIT_CONFIGS strawberry = \<lparr>cfg_type = strawberry, cfg_radius = 18, cfg_points = 3\<rparr>"
| "FRUIT_CONFIGS grape      = \<lparr>cfg_type = grape,      cfg_radius = 23, cfg_points = 6\<rparr>"
| "FRUIT_CONFIGS persimmon  = \<lparr>cfg_type = persimmon,  cfg_radius = 30, cfg_points = 10\<rparr>"
| "FRUIT_CONFIGS apple      = \<lparr>cfg_type = apple,      cfg_radius = 38, cfg_points = 15\<rparr>"
| "FRUIT_CONFIGS pear       = \<lparr>cfg_type = pear,       cfg_radius = 46, cfg_points = 21\<rparr>"
| "FRUIT_CONFIGS peach      = \<lparr>cfg_type = peach,      cfg_radius = 55, cfg_points = 28\<rparr>"
| "FRUIT_CONFIGS pineapple  = \<lparr>cfg_type = pineapple,  cfg_radius = 62, cfg_points = 37\<rparr>"
| "FRUIT_CONFIGS melon      = \<lparr>cfg_type = melon,      cfg_radius = 69, cfg_points = 47\<rparr>"
| "FRUIT_CONFIGS watermelon = \<lparr>cfg_type = watermelon, cfg_radius = 75, cfg_points = 58\<rparr>"

definition DROPPABLE_FRUITS :: "FruitType list" where
  "DROPPABLE_FRUITS = take 5 FRUIT_SEQUENCE"

definition INITIAL_SEQUENCE :: "FruitType list" where
  "INITIAL_SEQUENCE = [cherry, cherry, strawberry, grape]"

text \<open>\<^verbatim>\<open>Array.prototype.indexOf\<close>: the first index of the element, or \<open>-1\<close>.\<close>

fun indexOf :: "'a list \<Rightarrow> 'a \<Rightarrow> int" where
  "indexOf [] v = -1"
| "indexOf (u # us) v = (if u = v then 0 else (let i = indexOf us v in if i < 0 then -1 else i + 1))"

text \<open>An index read \<^verbatim>\<open>xs[i]\<close>: \<^verbatim>\<open>undefined\<close> (here \<open>None\<close>) out of range.\<close>

definition elemAt :: "'a list \<Rightarrow> int \<Rightarrow> 'a option" where
  "elemAt xs i = (if 0 \<le> i \<and> i < int (length xs) then Some (xs ! nat i) else None)"

text \<open>
  The tier after a tier, as the merge computes it:
  \<^verbatim>\<open>FRUIT_SEQUENCE[FRUIT_SEQUENCE.indexOf(type) + 1]\<close>.
\<close>

definition successor :: "FruitType \<Rightarrow> FruitType option" where
  "successor t = elemAt FRUIT_SEQUENCE (indexOf FRUIT_SEQUENCE t + 1)"

subsection \<open>Constants\<close>

definition CONTAINER_WIDTH :: real where "CONTAINER_WIDTH = 400"
definition CONTAINER_HEIGHT :: real where "CONTAINER_HEIGHT = 650"
definition DROP_ZONE_HEIGHT :: real where "DROP_ZONE_HEIGHT = 80"
definition GAME_DURATION_MS :: int where "GAME_DURATION_MS = 7 * 60 * 1000"
definition MIN_DROP_INTERVAL_MS :: int where "MIN_DROP_INTERVAL_MS = 500"
definition GRAVITY :: real where "GRAVITY = 1 / 2"
definition FRICTION :: real where "FRICTION = 1 / 10"
definition RESTITUTION :: real where "RESTITUTION = 1 / 10"
definition MULTIPLIER_MAX :: int where "MULTIPLIER_MAX = 8"
definition MULTIPLIER_DECAY_MS :: int where "MULTIPLIER_DECAY_MS = 2000"
definition OVERFLOW_ALARM_DURATION_MS :: int where "OVERFLOW_ALARM_DURATION_MS = 3400"
definition DANGER_ZONE_Y :: real where "DANGER_ZONE_Y = DROP_ZONE_HEIGHT + 20"
definition INVINCIBILITY_MS :: int where "INVINCIBILITY_MS = 1500"

subsection \<open>State\<close>

record Fruit =
  f_id :: nat
  f_type :: FruitType
  f_x :: real
  f_y :: real
  f_vx :: real
  f_vy :: real
  f_radius :: real
  f_skinId :: "string option"
  f_dropTime :: int

record MergeEvent =
  fruit1Id :: nat
  fruit2Id :: nat
  resultFruitId :: nat
  resultType :: FruitType
  ev_points :: int
  ev_multiplier :: int
  position :: "real \<times> real"

record FruitState =
  fs_id :: nat
  fs_type :: FruitType
  fs_x :: real
  fs_y :: real
  fs_angle :: real
  fs_skinId :: "string option"

record GameState =
  st_fruits :: "FruitState list"
  st_score :: int
  st_nextFruit :: FruitType
  st_queuedFruit :: FruitType
  st_isGameOver :: bool
  st_timeRemaining :: int
  st_multiplier :: int

record GameEngine =
  sessionId :: string
  fruits :: "Fruit list"
  score :: int
  nextFruit :: FruitType
  queuedFruit :: FruitType
  isGameOver :: bool
  startTime :: int
  lastDropTime :: int
  dropCount :: nat
  inputHistory :: "(real, jsval option, FruitType) GameInput list"
  multiplier :: int
  lastMergeTime :: int
  overflowStartTime :: "int option"
  skinLoadout :: "FruitType \<Rightarrow> string option"
  uuidsDrawn :: nat

text \<open>
  \<^verbatim>\<open>v || null\<close> and \<^verbatim>\<open>v || undefined\<close> on an optional string: a missing value and the
  empty string are both falsy.
\<close>

definition orNone :: "string option \<Rightarrow> string option" where
  "orNone v = (case v of None \<Rightarrow> None | Some t \<Rightarrow> if t = [] then None else Some t)"

text \<open>
  The constructor. \<open>now\<close> is its \<^verbatim>\<open>Date.now()\<close>; \<open>loadout\<close> is the optional argument,
  read field by field (\<^verbatim>\<open>skinLoadout.cherrySkinId || null\<close>, ...). The initial sequence
  has more than one entry, so the random draw of the queued fruit is never made.
\<close>

definition newGameEngine :: "string \<Rightarrow> int \<Rightarrow> (FruitType \<Rightarrow> string option) option \<Rightarrow> GameEngine" where
  "newGameEngine sid now loadout =
     \<lparr>sessionId = sid, fruits = [], score = 0,
      nextFruit = INITIAL_SEQUENCE ! 0, queuedFruit = INITIAL_SEQUENCE ! 1,
      isGameOver = False, startTime = now, lastDropTime = 0, dropCount = 0,
      inputHistory = [], multiplier = 1, lastMergeTime = 0, overflowStartTime = None,
      skinLoadout = (case loadout of None \<Rightarrow> (\<lambda>t. None) | Some l \<Rightarrow> (\<lambda>t. orNone (l t))),
      uuidsDrawn = 0\<rparr>"

text \<open>\<open>rnd\<close> is the value of \<^verbatim>\<open>Math.random()\<close>, which lies in \<open>[0, 1)\<close>.\<close>

definition getRandomDroppableFruit :: "real \<Rightarrow> FruitType" where
  "getRandomDroppableFruit rnd = DROPPABLE_FRUITS ! nat \<lfloor>rnd * real (length DROPPABLE_FRUITS)\<rfloor>"

definition getNextFromSequence :: "real \<Rightarrow> GameEngine \<Rightarrow> FruitType" where
  "getNextFromSequence rnd s =
     (let idx = dropCount s + 1
      in if idx < length INITIAL_SEQUENCE then INITIAL_SEQUENCE ! idx
         else getRandomDroppableFruit rnd)"

text \<open>The multiplier decay check, written out in \<^verbatim>\<open>processInput\<close> and in \<^verbatim>\<open>getState\<close>.\<close>

definition decayMultiplier :: "int \<Rightarrow> GameEngine \<Rightarrow> GameEngine" where
  "decayMultiplier now s =
     (if multiplier s > 1 \<and> now - lastMergeTime s > MULTIPLIER_DECAY_MS
      then s\<lparr>multiplier := 1\<rparr> else s)"

subsection \<open>Physics\<close>

text \<open>The body of the first loop of an iteration, for one fruit.\<close>

definition integrate :: "Fruit \<Rightarrow> Fruit" where
  "integrate f =
     (let f1 = f\<lparr>f_vy := f_vy f + GRAVITY\<rparr>;
          f2 = f1\<lparr>f_vx := f_vx f1 * (1 - FRICTION)\<rparr>;
          f3 = f2\<lparr>f_vy := f_vy f2 * (1 - FRICTION)\<rparr>;
          f4 = f3\<lparr>f_x := f_x f3 + f_vx f3\<rparr>;
          f5 = f4\<lparr>f_y := f_y f4 + f_vy f4\<rparr>;
          f6 = (if f_x f5 - f_radius f5 < 0
                then f5\<lparr>f_x := f_radius f5, f_vx := - f_vx f5 * RESTITUTION\<rparr> else f5);
          f7 = (if f_x f6 + f_radius f6 > CONTAINER_WIDTH
                then f6\<lparr>f_x := CONTAINER_WIDTH - f_radius f6, f_vx := - f_vx f6 * RESTITUTION\<rparr>
                else f6);
          f8 = (if f_y f7 + f_radius f7 > CONTAINER_HEIGHT
                then f7\<lparr>f_y := CONTAINER_HEIGHT - f_radius f7, f_vy := - f_vy f7 * RESTITUTION\<rparr>
                else f7)
      in f8)"

text \<open>
  \<^verbatim>\<open>resolveCollision\<close> updates the two fruit objects in place; the model returns the
  two updated fruits. \<^verbatim>\<open>distance || 1\<close> is 1 when the distance is 0.
\<close>

definition resolveCollision :: "Fruit \<Rightarrow> Fruit \<Rightarrow> real \<Rightarrow> real \<Rightarrow> real \<Rightarrow> real \<Rightarrow> Fruit \<times> Fruit" where
  "resolveCollision fruitA fruitB dx dy distance minDist =
     (let overlap = minDist - distance;
          nx = dx / (if distance = 0 then 1 else distance);
          ny = dy / (if distance = 0 then 1 else distance);
          a1 = fruitA\<lparr>f_x := f_x fruitA - (overlap / 2) * nx, f_y := f_y fruitA - (overlap / 2) * ny\<rparr>;
          b1 = fruitB\<lparr>f_x := f_x fruitB + (overlap / 2) * nx, f_y := f_y fruitB + (overlap / 2) * ny\<rparr>;
          relVelX = f_vx b1 - f_vx a1;
          relVelY = f_vy b1 - f_vy a1;
          relVelDotNormal = relVelX * nx + relVelY * ny
      in if relVelDotNormal < 0
         then (let impulse = relVelDotNormal * RESTITUTION
               in (a1\<lparr>f_vx := f_vx a1 + impulse * nx, f_vy := f_vy a1 + impulse * ny\<rparr>,
                   b1\<lparr>f_vx := f_vx b1 - impulse * nx, f_vy := f_vy b1 - impulse * ny\<rparr>))
         else (a1, b1))"

text \<open>
  The state of one pairwise scan: the engine (whose fruits, score, multiplier and merge
  clock the scan updates), the identifiers marked for removal, the fruits to add, and the
  merge events of the whole \<^verbatim>\<open>simulatePhysics\<close> call so far.
\<close>

record Scan =
  sc_eng :: GameEngine
  sc_toRemove :: "nat list"
  sc_toAdd :: "Fruit list"
  sc_events :: "MergeEvent list"

text \<open>The non-merge collision response on the pair at indices \<open>a\<close> and \<open>b\<close>.\<close>

definition collide :: "nat \<Rightarrow> nat \<Rightarrow> real \<Rightarrow> real \<Rightarrow> real \<Rightarrow> real \<Rightarrow> Scan \<Rightarrow> Scan" where
  "collide a b dx dy distance minDist sc =
     (let fs = fruits (sc_eng sc);
          r = resolveCollision (fs ! a) (fs ! b) dx dy distance minDist
      in sc\<lparr>sc_eng := (sc_eng sc)\<lparr>fruits := fs[a := fst r, b := snd r]\<rparr>\<rparr>)"

text \<open>
  The merge branch. It is entered only for a tier other than watermelon, which has a
  successor (lemma \<open>successor_Some\<close> below), so the \<open>None\<close> case is never taken.
\<close>

definition mergePair :: "int \<Rightarrow> nat \<Rightarrow> nat \<Rightarrow> Scan \<Rightarrow> Scan" where
  "mergePair now a b sc =
     (let e = sc_eng sc; fruitA = fruits e ! a; fruitB = fruits e ! b
      in case successor (f_type fruitA) of
           None \<Rightarrow> sc
         | Some nextType \<Rightarrow>
            (let nextConfig = FRUIT_CONFIGS nextType;
                 mergeX = (f_x fruitA + f_x fruitB) / 2;
                 mergeY = (f_y fruitA + f_y fruitB) / 2;
                 m = min (multiplier e + 1) MULTIPLIER_MAX;
                 pts = (2 * cfg_points nextConfig) * m;
                 newFruit = \<lparr>f_id = uuidsDrawn e, f_type = nextType, f_x = mergeX, f_y = mergeY,
                             f_vx = (f_vx fruitA + f_vx fruitB) / 2,
                             f_vy = (f_vy fruitA + f_vy fruitB) / 2,
                             f_radius = cfg_radius nextConfig,
                             f_skinId = orNone (skinLoadout e nextType),
                             f_dropTime = now\<rparr>;
                 ev = \<lparr>fruit1Id = f_id fruitA, fruit2Id = f_id fruitB,
                       resultFruitId = f_id newFruit, resultType = nextType,
                       ev_points = pts, ev_multiplier = m, position = (mergeX, mergeY)\<rparr>
             in \<lparr>sc_eng = e\<lparr>multiplier := m, lastMergeTime := now, score := score e + pts,
                            uuidsDrawn := uuidsDrawn e + 1\<rparr>,
                 sc_toRemove = sc_toRemove sc @ [f_id fruitA, f_id fruitB],
                 sc_toAdd = sc_toAdd sc @ [newFruit],
                 sc_events = sc_events sc @ [ev]\<rparr>))"

text \<open>The body of the inner loop, for the pair of indices \<open>a < b\<close>.\<close>

definition pairStep :: "int \<Rightarrow> nat \<Rightarrow> nat \<Rightarrow> Scan \<Rightarrow> Scan" where
  "pairStep now a b sc =
     (let fruitA = fruits (sc_eng sc) ! a; fruitB = fruits (sc_eng sc) ! b
      in if f_id fruitA \<in> set (sc_toRemove sc) \<or> f_id fruitB \<in> set (sc_toRemove sc) then sc
         else
           (let dx = f_x fruitB - f_x fruitA;
                dy = f_y fruitB - f_y fruitA;
                distance = sqrt (dx * dx + dy * dy);
                minDist = f_radius fruitA + f_radius fruitB
            in if distance < minDist then
                 (if f_type fruitA = f_type fruitB \<and> f_type fruitA \<noteq> watermelon then
                    (let aAge = now - f_dropTime fruitA; bAge = now - f_dropTime fruitB
                     in if aAge < INVINCIBILITY_MS \<or> bAge < INVINCIBILITY_MS
                        then collide a b dx dy distance minDist sc
                        else mergePair now a b sc)
                  else collide a b dx dy distance minDist sc)
               else sc))"

text \<open>
  The two nested index loops. No step of the scan changes the length of the fruit array
  (removals and additions are applied after the scan; lemma \<open>scanPairs_length\<close>), so the
  bound \<^verbatim>\<open>this.fruits.length\<close> is the length at the start of the scan.
\<close>

definition scanPairs :: "int \<Rightarrow> Scan \<Rightarrow> Scan" where
  "scanPairs now sc =
     (let n = length (fruits (sc_eng sc))
      in fold (\<lambda>a. fold (pairStep now a) [a + 1 ..< n]) [0 ..< n] sc)"

text \<open>One of the ten iterations: integrate, scan, then apply removals and additions.\<close>

definition physicsIteration :: "int \<Rightarrow> GameEngine \<times> MergeEvent list \<Rightarrow> GameEngine \<times> MergeEvent list" where
  "physicsIteration now st =
     (let e1 = (fst st)\<lparr>fruits := map integrate (fruits (fst st))\<rparr>;
          sc = scanPairs now \<lparr>sc_eng = e1, sc_toRemove = [], sc_toAdd = [], sc_events = snd st\<rparr>;
          e2 = sc_eng sc
      in (e2\<lparr>fruits := filter (\<lambda>f. f_id f \<notin> set (sc_toRemove sc)) (fruits e2) @ sc_toAdd sc\<rparr>,
          sc_events sc))"

definition simulatePhysics :: "int \<Rightarrow> GameEngine \<Rightarrow> GameEngine \<times> MergeEvent list" where
  "simulatePhysics now s = (physicsIteration now ^^ 10) (s, [])"

definition inDanger :: "Fruit \<Rightarrow> bool" where
  "inDanger f = (f_y f - f_radius f < DANGER_ZONE_Y \<and> \<bar>f_vy f\<bar> < 1)"

definition checkOverflow :: "int \<Rightarrow> GameEngine \<Rightarrow> GameEngine" where
  "checkOverflow now s =
     (let hasOverflow = list_ex inDanger (fruits s)
      in if hasOverflow then
           (case overflowStartTime s of
              None \<Rightarrow> s\<lparr>overflowStartTime := Some now\<rparr>
            | Some t0 \<Rightarrow> if now - t0 \<ge> OVERFLOW_ALARM_DURATION_MS then s\<lparr>isGameOver := True\<rparr> else s)
         else s\<lparr>overflowStartTime := None\<rparr>)"

subsection \<open>Operations\<close>

text \<open>
  \<^verbatim>\<open>processInput\<close>. \<open>t1\<close> and \<open>t2\<close> are its two readings of \<^verbatim>\<open>Date.now()\<close> (the second
  is \<^verbatim>\<open>now\<close>), \<open>rnd\<close> the value \<^verbatim>\<open>Math.random()\<close> returns if the queue draws. The result
  \<^verbatim>\<open>{ success: false, error }\<close> is \<open>Inl error\<close>, \<^verbatim>\<open>{ success: true, mergeEvents }\<close> is
  \<open>Inr mergeEvents\<close>.
\<close>

definition processInput ::
  "int \<Rightarrow> int \<Rightarrow> real \<Rightarrow> (real, jsval option, FruitType) GameInput \<Rightarrow> GameEngine
     \<Rightarrow> (string + MergeEvent list) \<times> GameEngine" where
  "processInput t1 t2 rnd input s =
     (if isGameOver s then (Inl ''Game is already over'', s)
      else if t1 - startTime s \<ge> GAME_DURATION_MS
      then (Inl ''Game time expired'', s\<lparr>isGameOver := True\<rparr>)
      else if t2 - lastDropTime s < MIN_DROP_INTERVAL_MS then (Inl ''Dropping too fast'', s)
      else
        (let now = t2;
             s1 = decayMultiplier now s;
             config = FRUIT_CONFIGS (nextFruit s1);
             minX = cfg_radius config;
             maxX = CONTAINER_WIDTH - cfg_radius config;
             dropX = max minX (min maxX (in_x input * CONTAINER_WIDTH));
             s2 = s1\<lparr>inputHistory := inputHistory s1 @ [input\<lparr>in_fruitType := Some (nextFruit s1)\<rparr>]\<rparr>;
             newFruit = \<lparr>f_id = uuidsDrawn s2, f_type = nextFruit s2, f_x = dropX,
                         f_y = DROP_ZONE_HEIGHT, f_vx = 0, f_vy = 0,
                         f_radius = cfg_radius config,
                         f_skinId = orNone (skinLoadout s2 (nextFruit s2)),
                         f_dropTime = now\<rparr>;
             s3 = s2\<lparr>uuidsDrawn := uuidsDrawn s2 + 1, fruits := fruits s2 @ [newFruit],
                     lastDropTime := now, dropCount := dropCount s2 + 1\<rparr>;
             s4 = s3\<lparr>nextFruit := queuedFruit s3\<rparr>;
             s5 = s4\<lparr>queuedFruit := getNextFromSequence rnd s4\<rparr>;
             r = simulatePhysics now s5;
             s6 = checkOverflow now (fst r)
         in (Inr (snd r), s6)))"

text \<open>\<^verbatim>\<open>getState\<close>, with its two readings of the clock; it returns the snapshot and the engine.\<close>

definition getState :: "int \<Rightarrow> int \<Rightarrow> GameEngine \<Rightarrow> GameState \<times> GameEngine" where
  "getState t1 t2 s =
     (let elapsed = t1 - startTime s;
          timeRemaining = max 0 (GAME_DURATION_MS - elapsed);
          s1 = decayMultiplier t2 s
      in (\<lparr>st_fruits = map (\<lambda>f. \<lparr>fs_id = f_id f, fs_type = f_type f, fs_x = f_x f, fs_y = f_y f,
                                  fs_angle = 0, fs_skinId = f_skinId f\<rparr>) (fruits s1),
           st_score = score s1, st_nextFruit = nextFruit s1, st_queuedFruit = queuedFruit s1,
           st_isGameOver = (isGameOver s1 \<or> timeRemaining \<le> 0),
           st_timeRemaining = timeRemaining, st_multiplier = multiplier s1\<rparr>, s1))"

definition getInputHistory :: "GameEngine \<Rightarrow> (real, jsval option, FruitType) GameInput list" where
  "getInputHistory s = inputHistory s"


subsection \<open>Properties of the engine\<close>

lemma successor_Some: "t \<noteq> watermelon \<Longrightarrow> \<exists>u. successor t = Some u"
  by (cases t) (simp_all add: successor_def elemAt_def FRUIT_SEQUENCE_def)

lemma successor_watermelon: "successor watermelon = None"
  by (simp add: successor_def elemAt_def FRUIT_SEQUENCE_def)

lemma successor_grows:
  "successor t = Some u \<Longrightarrow>
     cfg_radius (FRUIT_CONFIGS t) < cfg_radius (FRUIT_CONFIGS u)
   \<and> cfg_points (FRUIT_CONFIGS t) < cfg_points (FRUIT_CONFIGS u)"
  by (cases t) (auto simp: successor_def elemAt_def FRUIT_SEQUENCE_def)

lemma fold_invariant:
  "I s \<Longrightarrow> (\<And>x t. x \<in> set xs \<Longrightarrow> I t \<Longrightarrow> I (f x t)) \<Longrightarrow> I (fold f xs s)"
  by (induction xs arbitrary: s) auto

lemma collide_length: "length (fruits (sc_eng (collide a b dx dy d m sc))) = length (fruits (sc_eng sc))"
  by (simp add: collide_def Let_def)

lemma mergePair_length: "length (fruits (sc_eng (mergePair now a b sc))) = length (fruits (sc_eng sc))"
  by (simp add: mergePair_def Let_def split: option.splits)

lemma pairStep_cases:
  "pairStep now a b sc = sc
   \<or> (\<exists>dx dy d m. pairStep now a b sc = collide a b dx dy d m sc)
   \<or> (pairStep now a b sc = mergePair now a b sc
       \<and> f_type (fruits (sc_eng sc) ! a) = f_type (fruits (sc_eng sc) ! b)
       \<and> f_type (fruits (sc_eng sc) ! a) \<noteq> watermelon
       \<and> INVINCIBILITY_MS \<le> now - f_dropTime (fruits (sc_eng sc) ! a)
       \<and> INVINCIBILITY_MS \<le> now - f_dropTime (fruits (sc_eng sc) ! b))"
  unfolding pairStep_def Let_def by (auto simp: not_less)

lemma pairStep_length: "length (fruits (sc_eng (pairStep now a b sc))) = length (fruits (sc_eng sc))"
  using pairStep_cases[of now a b sc] by (auto simp: collide_length mergePair_length)

lemma scanPairs_induct:
  assumes init: "P sc"
    and step: "\<And>a b t. P t \<Longrightarrow> length (fruits (sc_eng t)) = length (fruits (sc_eng sc))
                 \<Longrightarrow> a < b \<Longrightarrow> b < length (fruits (sc_eng sc)) \<Longrightarrow> P (pairStep now a b t)"
  shows "P (scanPairs now sc) \<and> length (fruits (sc_eng (scanPairs now sc))) = length (fruits (sc_eng sc))"
proof -
  let ?n = "length (fruits (sc_eng sc))"
  let ?I = "\<lambda>t. P t \<and> length (fruits (sc_eng t)) = ?n"
  have inner: "?I (fold (pairStep now a) [a + 1 ..< ?n] t)" if "?I t" for a t
    by (rule fold_invariant[where I = ?I, OF that]) (use step in \<open>auto simp: pairStep_length\<close>)
  have "?I (fold (\<lambda>a. fold (pairStep now a) [a + 1 ..< ?n]) [0 ..< ?n] sc)"
    by (rule fold_invariant[where I = ?I]) (use init inner in auto)
  then show ?thesis by (simp add: scanPairs_def Let_def)
qed

definition scoreFormula :: "MergeEvent \<Rightarrow> bool" where
  "scoreFormula e = (ev_points e = 2 * cfg_points (FRUIT_CONFIGS (resultType e)) * ev_multiplier e)"

definition ledger :: "int \<Rightarrow> int \<Rightarrow> GameEngine \<Rightarrow> MergeEvent list \<Rightarrow> bool" where
  "ledger m0 score0 e evs =
     (list_all scoreFormula evs
      \<and> score e = score0 + sum_list (map ev_points evs)
      \<and> map ev_multiplier evs = map (\<lambda>k. min (m0 + int k + 1) MULTIPLIER_MAX) [0 ..< length evs]
      \<and> multiplier e = (if evs = [] then m0 else min (m0 + int (length evs)) MULTIPLIER_MAX))"

lemma ledger_init: "ledger (multiplier s) (score s) s []"
  by (simp add: ledger_def)

lemma ledger_collide:
  "ledger m0 c0 (sc_eng sc) (sc_events sc) \<Longrightarrow>
   ledger m0 c0 (sc_eng (collide a b dx dy d m sc)) (sc_events (collide a b dx dy d m sc))"
  by (simp add: ledger_def collide_def Let_def)

lemma ledger_mergePair:
  assumes "ledger m0 c0 (sc_eng sc) (sc_events sc)"
  shows "ledger m0 c0 (sc_eng (mergePair now a b sc)) (sc_events (mergePair now a b sc))"
proof (cases "successor (f_type (fruits (sc_eng sc) ! a))")
  case None
  then show ?thesis using assms by (simp add: mergePair_def Let_def)
next
  case (Some u)
  then show ?thesis using assms
    by (auto simp: mergePair_def Let_def ledger_def scoreFormula_def MULTIPLIER_MAX_def)
qed

lemma ledger_pairStep:
  "ledger m0 c0 (sc_eng sc) (sc_events sc) \<Longrightarrow>
   ledger m0 c0 (sc_eng (pairStep now a b sc)) (sc_events (pairStep now a b sc))"
  using pairStep_cases[of now a b sc] by (auto simp: ledger_collide ledger_mergePair)

lemma ledger_scanPairs:
  "ledger m0 c0 (sc_eng sc) (sc_events sc) \<Longrightarrow>
   ledger m0 c0 (sc_eng (scanPairs now sc)) (sc_events (scanPairs now sc))"
  using scanPairs_induct[where P = "\<lambda>t. ledger m0 c0 (sc_eng t) (sc_events t)" and sc = sc and now = now]
  by (simp add: ledger_pairStep)

lemma ledger_fruits: "ledger m0 c0 (e\<lparr>fruits := fs\<rparr>) evs = ledger m0 c0 e evs"
  by (simp add: ledger_def)

lemma ledger_physicsIteration:
  "ledger m0 c0 (fst st) (snd st) \<Longrightarrow>
   ledger m0 c0 (fst (physicsIteration now st)) (snd (physicsIteration now st))"
  unfolding physicsIteration_def Let_def
  by (simp add: ledger_fruits) (rule ledger_scanPairs, simp add: ledger_fruits)

lemma ledger_funpow:
  "ledger m0 c0 (fst st) (snd st) \<Longrightarrow>
   ledger m0 c0 (fst ((physicsIteration now ^^ n) st)) (snd ((physicsIteration now ^^ n) st))"
  by (induction n) (simp_all add: ledger_physicsIteration)

lemma ledger_simulatePhysics:
  "ledger (multiplier s) (score s) (fst (simulatePhysics now s)) (snd (simulatePhysics now s))"
  unfolding simulatePhysics_def by (rule ledger_funpow) (simp add: ledger_init)

definition sameControl :: "GameEngine \<Rightarrow> GameEngine \<Rightarrow> bool" where
  "sameControl s t =
     (sessionId t = sessionId s \<and> nextFruit t = nextFruit s \<and> queuedFruit t = queuedFruit s
      \<and> isGameOver t = isGameOver s \<and> startTime t = startTime s
      \<and> lastDropTime t = lastDropTime s \<and> dropCount t = dropCount s
      \<and> inputHistory t = inputHistory s \<and> overflowStartTime t = overflowStartTime s
      \<and> skinLoadout t = skinLoadout s)"

lemma sameControl_pairStep:
  "sameControl s (sc_eng sc) \<Longrightarrow> sameControl s (sc_eng (pairStep now a b sc))"
  using pairStep_cases[of now a b sc]
  by (auto simp: sameControl_def collide_def mergePair_def Let_def split: option.splits)

lemma sameControl_scanPairs:
  "sameControl s (sc_eng sc) \<Longrightarrow> sameControl s (sc_eng (scanPairs now sc))"
  using scanPairs_induct[where P = "\<lambda>t. sameControl s (sc_eng t)" and sc = sc and now = now]
  by (simp add: sameControl_pairStep)

lemma sameControl_fruits: "sameControl s (e\<lparr>fruits := fs\<rparr>) = sameControl s e"
  by (simp add: sameControl_def)

lemma sameControl_physicsIteration:
  "sameControl s (fst st) \<Longrightarrow> sameControl s (fst (physicsIteration now st))"
  unfolding physicsIteration_def Let_def
  by (simp add: sameControl_fruits) (rule sameControl_scanPairs, simp add: sameControl_fruits)

lemma sameControl_funpow:
  "sameControl s (fst st) \<Longrightarrow> sameControl s (fst ((physicsIteration now ^^ n) st))"
  by (induction n) (simp_all add: sameControl_physicsIteration)

lemma sameControl_simulatePhysics: "sameControl s (fst (simulatePhysics now s))"
  unfolding simulatePhysics_def by (rule sameControl_funpow) (simp add: sameControl_def)

text \<open>
  C3. For every merge event of a simulation step, the points recorded in the event are
  exactly 2 times the point value of the resulting tier times the multiplier recorded in
  the event; the \<open>k\<close>-th event of the step (counting from 0) records the multiplier the
  engine had on entry, incremented \<open>k + 1\<close> times and capped; and the score after the
  step is the score before plus the points of the step's events.
\<close>

theorem merge_score_formula:
  assumes "simulatePhysics now s = (s', evs)"
  shows "list_all (\<lambda>e. ev_points e = 2 * cfg_points (FRUIT_CONFIGS (resultType e)) * ev_multiplier e) evs
     \<and> map ev_multiplier evs = map (\<lambda>k. min (multiplier s + int k + 1) MULTIPLIER_MAX) [0 ..< length evs]
     \<and> score s' = score s + sum_list (map ev_points evs)"
proof -
  have "ledger (multiplier s) (score s) s' evs"
    using ledger_simulatePhysics[of s now] assms by simp
  then show ?thesis
    by (simp add: ledger_def scoreFormula_def list_all_iff)
qed


lemma decayMultiplier_other:
  "fruits (decayMultiplier now s) = fruits s" "score (decayMultiplier now s) = score s"
  "nextFruit (decayMultiplier now s) = nextFruit s" "queuedFruit (decayMultiplier now s) = queuedFruit s"
  "isGameOver (decayMultiplier now s) = isGameOver s" "inputHistory (decayMultiplier now s) = inputHistory s"
  "overflowStartTime (decayMultiplier now s) = overflowStartTime s"
  "lastMergeTime (decayMultiplier now s) = lastMergeTime s"
  "dropCount (decayMultiplier now s) = dropCount s"
  by (simp_all add: decayMultiplier_def)



text \<open>The part of \<^verbatim>\<open>processInput\<close> before the simulation step, on an accepted input.\<close>

definition spawned :: "int \<Rightarrow> real \<Rightarrow> (real, jsval option, FruitType) GameInput \<Rightarrow> GameEngine \<Rightarrow> GameEngine" where
  "spawned now rnd input s =
     (let s1 = decayMultiplier now s;
          config = FRUIT_CONFIGS (nextFruit s1);
          dropX = max (cfg_radius config)
                    (min (CONTAINER_WIDTH - cfg_radius config) (in_x input * CONTAINER_WIDTH));
          newFruit = \<lparr>f_id = uuidsDrawn s1, f_type = nextFruit s1, f_x = dropX,
                      f_y = DROP_ZONE_HEIGHT, f_vx = 0, f_vy = 0, f_radius = cfg_radius config,
                      f_skinId = orNone (skinLoadout s1 (nextFruit s1)), f_dropTime = now\<rparr>
      in s1\<lparr>inputHistory := inputHistory s1 @ [input\<lparr>in_fruitType := Some (nextFruit s1)\<rparr>],
             uuidsDrawn := uuidsDrawn s1 + 1, fruits := fruits s1 @ [newFruit],
             lastDropTime := now, dropCount := dropCount s1 + 1,
             nextFruit := queuedFruit s1,
             queuedFruit := getNextFromSequence rnd (s1\<lparr>dropCount := dropCount s1 + 1\<rparr>)\<rparr>)"

lemma getNextFromSequence_cong:
  "dropCount s = dropCount t \<Longrightarrow> getNextFromSequence rnd s = getNextFromSequence rnd t"
  by (simp add: getNextFromSequence_def)

lemma processInput_accepted:
  assumes "processInput t1 t2 rnd input s = (Inr evs, s')"
  shows "\<not> isGameOver s" "t1 - startTime s < GAME_DURATION_MS"
    "MIN_DROP_INTERVAL_MS \<le> t2 - lastDropTime s"
    "evs = snd (simulatePhysics t2 (spawned t2 rnd input s))"
    "s' = checkOverflow t2 (fst (simulatePhysics t2 (spawned t2 rnd input s)))"
proof -
  show a: "\<not> isGameOver s" "t1 - startTime s < GAME_DURATION_MS" "MIN_DROP_INTERVAL_MS \<le> t2 - lastDropTime s"
    using assms by (auto simp: processInput_def split: if_splits)
  have eq: "(let now = t2;
             s1 = decayMultiplier now s;
             config = FRUIT_CONFIGS (nextFruit s1);
             minX = cfg_radius config;
             maxX = CONTAINER_WIDTH - cfg_radius config;
             dropX = max minX (min maxX (in_x input * CONTAINER_WIDTH));
             s2 = s1\<lparr>inputHistory := inputHistory s1 @ [input\<lparr>in_fruitType := Some (nextFruit s1)\<rparr>]\<rparr>;
             newFruit = \<lparr>f_id = uuidsDrawn s2, f_type = nextFruit s2, f_x = dropX,
                         f_y = DROP_ZONE_HEIGHT, f_vx = 0, f_vy = 0,
                         f_radius = cfg_radius config,
                         f_skinId = orNone (skinLoadout s2 (nextFruit s2)),
                         f_dropTime = now\<rparr>;
             s3 = s2\<lparr>uuidsDrawn := uuidsDrawn s2 + 1, fruits := fruits s2 @ [newFruit],
                     lastDropTime := now, dropCount := dropCount s2 + 1\<rparr>;
             s4 = s3\<lparr>nextFruit := queuedFruit s3\<rparr>;
             s5 = s4\<lparr>queuedFruit := getNextFromSequence rnd s4\<rparr>
          in s5) = spawned t2 rnd input s"
    unfolding spawned_def Let_def
    by (simp add: getNextFromSequence_def)
  have "processInput t1 t2 rnd input s
      = (Inr (snd (simulatePhysics t2 (spawned t2 rnd input s))),
         checkOverflow t2 (fst (simulatePhysics t2 (spawned t2 rnd input s))))"
    using a unfolding eq[symmetric] by (simp add: processInput_def Let_def)
  then show "evs = snd (simulatePhysics t2 (spawned t2 rnd input s))"
    "s' = checkOverflow t2 (fst (simulatePhysics t2 (spawned t2 rnd input s)))"
    using assms by simp_all
qed

lemma processInput_rejected:
  assumes "processInput t1 t2 rnd input s = (Inl err, s')"
  shows "(err = ''Game time expired'' \<and> s' = s\<lparr>isGameOver := True\<rparr>) \<or> (err \<noteq> ''Game time expired'' \<and> s' = s)"
  using assms by (auto simp: processInput_def Let_def split: if_splits)



lemma checkOverflow_fruits: "fruits (checkOverflow now s) = fruits s"
  by (simp add: checkOverflow_def Let_def split: option.splits)

text \<open>
  C6. An overflow check ends a running session only if some fruit is in danger (top edge
  above the danger line and vertical speed below 1 in absolute value) and the overflow
  timer was started at least the alarm duration before the check. A check with no fruit
  in danger clears the timer and does not end the session; a check with a fruit in danger
  and no timer only starts the timer; a check with a fruit in danger and a timer younger
  than the alarm duration changes nothing. The same holds of the check made by an
  accepted input: if the session is over after it, a fruit is in danger after the step
  and the timer was started at least the alarm duration before.
\<close>

theorem overflow_timing:
  "(\<not> isGameOver s \<and> isGameOver (checkOverflow now s) \<longrightarrow>
       list_ex inDanger (fruits s)
       \<and> (\<exists>t0. overflowStartTime s = Some t0 \<and> OVERFLOW_ALARM_DURATION_MS \<le> now - t0))
   \<and> (\<not> list_ex inDanger (fruits s) \<longrightarrow>
       overflowStartTime (checkOverflow now s) = None
       \<and> isGameOver (checkOverflow now s) = isGameOver s)
   \<and> (list_ex inDanger (fruits s) \<and> overflowStartTime s = None \<longrightarrow>
       checkOverflow now s = s\<lparr>overflowStartTime := Some now\<rparr>)
   \<and> (\<forall>t0. list_ex inDanger (fruits s) \<and> overflowStartTime s = Some t0
             \<and> now - t0 < OVERFLOW_ALARM_DURATION_MS \<longrightarrow> checkOverflow now s = s)
   \<and> (\<forall>evs s'. processInput t1 t2 rnd input s = (Inr evs, s') \<and> isGameOver s' \<longrightarrow>
         list_ex inDanger (fruits s')
         \<and> (\<exists>t0. overflowStartTime s = Some t0 \<and> OVERFLOW_ALARM_DURATION_MS \<le> t2 - t0))"
proof -
  have c1: "\<not> isGameOver u \<and> isGameOver (checkOverflow n u) \<longrightarrow>
       list_ex inDanger (fruits u)
       \<and> (\<exists>t0. overflowStartTime u = Some t0 \<and> OVERFLOW_ALARM_DURATION_MS \<le> n - t0)" for u n
    by (auto simp: checkOverflow_def Let_def split: option.splits if_splits)
  have c2: "\<not> list_ex inDanger (fruits s) \<longrightarrow>
       overflowStartTime (checkOverflow now s) = None
       \<and> isGameOver (checkOverflow now s) = isGameOver s"
    by (simp add: checkOverflow_def Let_def)
  have c3: "list_ex inDanger (fruits s) \<and> overflowStartTime s = None \<longrightarrow>
       checkOverflow now s = s\<lparr>overflowStartTime := Some now\<rparr>"
    by (simp add: checkOverflow_def Let_def)
  have c4: "\<forall>t0. list_ex inDanger (fruits s) \<and> overflowStartTime s = Some t0
             \<and> now - t0 < OVERFLOW_ALARM_DURATION_MS \<longrightarrow> checkOverflow now s = s"
    by (simp add: checkOverflow_def Let_def)
  have c5: "list_ex inDanger (fruits s')
         \<and> (\<exists>t0. overflowStartTime s = Some t0 \<and> OVERFLOW_ALARM_DURATION_MS \<le> t2 - t0)"
    if acc: "processInput t1 t2 rnd input s = (Inr evs, s')" and over: "isGameOver s'" for evs s'
  proof -
    let ?p = "spawned t2 rnd input s"
    let ?q = "fst (simulatePhysics t2 ?p)"
    note a = processInput_accepted[OF acc]
    have ctl: "sameControl ?p ?q" by (rule sameControl_simulatePhysics)
    have p: "isGameOver ?p = isGameOver s" "overflowStartTime ?p = overflowStartTime s"
      by (simp_all add: spawned_def Let_def decayMultiplier_other)
    have q: "\<not> isGameOver ?q" "overflowStartTime ?q = overflowStartTime s"
      using ctl p a(1) by (simp_all add: sameControl_def)
    from c1[of ?q t2] q over a(5) show ?thesis
      by (simp add: checkOverflow_fruits)
  qed
  from c1[of s now] c2 c3 c4 c5 show ?thesis by blast
qed

text \<open>
  C2 (as amended). Whenever \<^verbatim>\<open>processInput\<close> rejects an input, the fruits, the score,
  the spawn queue (next fruit, queued fruit, drop count), the input log and the
  multiplier are as before the call, and the state differs from the state before at most
  in the terminal flag; the flag is as before for the rejections ``already over'' and
  ``too fast'', and it is set by the rejection ``time expired''.
\<close>

theorem rejected_input_state:
  assumes "processInput t1 t2 rnd input s = (Inl err, s')"
  shows "fruits s' = fruits s \<and> score s' = score s
     \<and> nextFruit s' = nextFruit s \<and> queuedFruit s' = queuedFruit s \<and> dropCount s' = dropCount s
     \<and> inputHistory s' = inputHistory s \<and> multiplier s' = multiplier s
     \<and> s' = s\<lparr>isGameOver := isGameOver s'\<rparr>
     \<and> (if err = ''Game time expired'' then isGameOver s' else isGameOver s' = isGameOver s)"
  using processInput_rejected[OF assms] by auto

lemma resolveCollision_tags:
  "f_type (fst (resolveCollision A B dx dy d m)) = f_type A"
  "f_type (snd (resolveCollision A B dx dy d m)) = f_type B"
  "f_id (fst (resolveCollision A B dx dy d m)) = f_id A"
  "f_id (snd (resolveCollision A B dx dy d m)) = f_id B"
  "f_dropTime (fst (resolveCollision A B dx dy d m)) = f_dropTime A"
  "f_dropTime (snd (resolveCollision A B dx dy d m)) = f_dropTime B"
  by (simp_all add: resolveCollision_def Let_def)

lemma integrate_tags:
  "f_type (integrate f) = f_type f" "f_id (integrate f) = f_id f" "f_dropTime (integrate f) = f_dropTime f"
  by (simp_all add: integrate_def Let_def)

lemma map_update_same:
  assumes "g v = g (xs ! k)"
  shows "map g (xs[k := v]) = map g xs"
proof (cases "k < length xs")
  case True
  then show ?thesis using assms by (simp add: map_update list_update_same_conv)
next
  case False
  then have "xs[k := v] = xs" by (intro list_update_beyond) simp
  then show ?thesis by simp
qed

lemma map_update2_same:
  assumes "a \<noteq> b" "g v = g (xs ! a)" "g w = g (xs ! b)"
  shows "map g (xs[a := v, b := w]) = map g xs"
proof -
  have "g w = g (xs[a := v] ! b)" using assms by simp
  then have "map g (xs[a := v, b := w]) = map g (xs[a := v])" by (rule map_update_same)
  also have "\<dots> = map g xs" using assms(2) by (rule map_update_same)
  finally show ?thesis .
qed

lemma collide_frame:
  "sc_events (collide a b dx dy d m sc) = sc_events sc"
  "sc_toRemove (collide a b dx dy d m sc) = sc_toRemove sc"
  "sc_toAdd (collide a b dx dy d m sc) = sc_toAdd sc"
  "score (sc_eng (collide a b dx dy d m sc)) = score (sc_eng sc)"
  "multiplier (sc_eng (collide a b dx dy d m sc)) = multiplier (sc_eng sc)"
  "lastMergeTime (sc_eng (collide a b dx dy d m sc)) = lastMergeTime (sc_eng sc)"
  "uuidsDrawn (sc_eng (collide a b dx dy d m sc)) = uuidsDrawn (sc_eng sc)"
  by (simp_all add: collide_def Let_def)

lemma collide_tags:
  assumes "a \<noteq> b"
  shows "map f_type (fruits (sc_eng (collide a b dx dy d m sc))) = map f_type (fruits (sc_eng sc))"
    and "map f_id (fruits (sc_eng (collide a b dx dy d m sc))) = map f_id (fruits (sc_eng sc))"
  using assms by (simp_all add: collide_def Let_def map_update2_same resolveCollision_tags)

definition noMerge :: "Scan \<Rightarrow> Scan \<Rightarrow> bool" where
  "noMerge sc r =
     (sc_events r = sc_events sc \<and> sc_toRemove r = sc_toRemove sc \<and> sc_toAdd r = sc_toAdd sc
      \<and> score (sc_eng r) = score (sc_eng sc) \<and> multiplier (sc_eng r) = multiplier (sc_eng sc)
      \<and> map f_id (fruits (sc_eng r)) = map f_id (fruits (sc_eng sc))
      \<and> map f_type (fruits (sc_eng r)) = map f_type (fruits (sc_eng sc)))"

lemma noMerge_refl: "noMerge sc sc"
  by (simp add: noMerge_def)

lemma noMerge_collide: "a \<noteq> b \<Longrightarrow> noMerge sc (collide a b dx dy d m sc)"
  by (simp add: noMerge_def collide_frame collide_tags)

lemma pairStep_watermelon:
  assumes "a \<noteq> b"
    and "f_type (fruits (sc_eng sc) ! a) = watermelon \<or> f_type (fruits (sc_eng sc) ! b) = watermelon"
  shows "noMerge sc (pairStep now a b sc)"
  using pairStep_cases[of now a b sc] assms by (auto simp: noMerge_refl noMerge_collide)

text \<open>A scan over fruits that are all watermelons.\<close>

definition melonScan :: "Scan \<Rightarrow> Scan \<Rightarrow> bool" where
  "melonScan sc t =
     (sc_events t = sc_events sc \<and> sc_toRemove t = sc_toRemove sc \<and> sc_toAdd t = sc_toAdd sc
      \<and> score (sc_eng t) = score (sc_eng sc)
      \<and> map f_id (fruits (sc_eng t)) = map f_id (fruits (sc_eng sc))
      \<and> map f_type (fruits (sc_eng t)) = map f_type (fruits (sc_eng sc)))"

lemma melon_scanPairs:
  assumes "list_all (\<lambda>f. f_type f = watermelon) (fruits (sc_eng sc))"
  shows "melonScan sc (scanPairs now sc)"
proof -
  have "melonScan sc (scanPairs now sc) \<and>
        length (fruits (sc_eng (scanPairs now sc))) = length (fruits (sc_eng sc))"
  proof (rule scanPairs_induct)
    show "melonScan sc sc" by (simp add: melonScan_def)
  next
    fix a b t
    assume t: "melonScan sc t" and len: "length (fruits (sc_eng t)) = length (fruits (sc_eng sc))"
      and ab: "a < b" "b < length (fruits (sc_eng sc))"
    have "map f_type (fruits (sc_eng t)) ! a = map f_type (fruits (sc_eng sc)) ! a"
      using t by (simp add: melonScan_def)
    then have "f_type (fruits (sc_eng t) ! a) = f_type (fruits (sc_eng sc) ! a)"
      using ab len by simp
    moreover have "f_type (fruits (sc_eng sc) ! a) = watermelon"
      using assms ab by (simp add: list_all_length)
    ultimately have "f_type (fruits (sc_eng t) ! a) = watermelon" by simp
    then have "noMerge t (pairStep now a b t)"
      using pairStep_watermelon[where a = a and b = b and sc = t and now = now] ab by simp
    then show "melonScan sc (pairStep now a b t)"
      using t by (simp add: melonScan_def noMerge_def)
  qed
  then show ?thesis by simp
qed

lemma melon_iteration:
  assumes "list_all (\<lambda>f. f_type f = watermelon) (fruits (fst st))"
  shows "snd (physicsIteration now st) = snd st
     \<and> score (fst (physicsIteration now st)) = score (fst st)
     \<and> map f_id (fruits (fst (physicsIteration now st))) = map f_id (fruits (fst st))
     \<and> list_all (\<lambda>f. f_type f = watermelon) (fruits (fst (physicsIteration now st)))"
proof -
  let ?sc = "\<lparr>sc_eng = (fst st)\<lparr>fruits := map integrate (fruits (fst st))\<rparr>,
              sc_toRemove = [], sc_toAdd = [], sc_events = snd st\<rparr>"
  have "list_all (\<lambda>f. f_type f = watermelon) (fruits (sc_eng ?sc))"
    using assms by (simp add: list_all_iff integrate_tags)
  from melon_scanPairs[OF this, where now = now]
  have m: "melonScan ?sc (scanPairs now ?sc)" .
  have ty: "map f_type (fruits (sc_eng (scanPairs now ?sc))) = map f_type (fruits (fst st))"
    using m by (simp add: melonScan_def integrate_tags comp_def)
  have "list_all (\<lambda>t. t = watermelon) (map f_type (fruits (sc_eng (scanPairs now ?sc))))"
    unfolding ty using assms by (simp add: list_all_iff)
  then have wm: "list_all (\<lambda>f. f_type f = watermelon) (fruits (sc_eng (scanPairs now ?sc)))"
    by (simp add: list_all_iff)
  show ?thesis
    using m wm unfolding physicsIteration_def Let_def
    by (simp add: melonScan_def integrate_tags comp_def)
qed

lemma melon_funpow:
  assumes "list_all (\<lambda>f. f_type f = watermelon) (fruits (fst st))"
  shows "snd ((physicsIteration now ^^ n) st) = snd st
     \<and> score (fst ((physicsIteration now ^^ n) st)) = score (fst st)
     \<and> map f_id (fruits (fst ((physicsIteration now ^^ n) st))) = map f_id (fruits (fst st))
     \<and> list_all (\<lambda>f. f_type f = watermelon) (fruits (fst ((physicsIteration now ^^ n) st)))"
proof (induction n)
  case 0
  then show ?case using assms by simp
next
  case (Suc n)
  from melon_iteration[where st = "(physicsIteration now ^^ n) st" and now = now] Suc show ?case by simp
qed

text \<open>
  C7. Along \<open>FRUIT_SEQUENCE\<close> the radii and the point values are strictly increasing;
  every tier but watermelon has a successor, of larger radius and point value; the
  sequence has ten tiers, the last is watermelon, and watermelon has no successor. A
  pair step on a pair that holds a watermelon never merges (no event, no removal, no
  addition, score and multiplier unchanged), and a simulation step on fruits that are
  all watermelons yields no merge event and keeps every fruit.
\<close>

theorem tier_monotonicity:
  "sorted_wrt (<) (map (\<lambda>t. cfg_radius (FRUIT_CONFIGS t)) FRUIT_SEQUENCE)
   \<and> sorted_wrt (<) (map (\<lambda>t. cfg_points (FRUIT_CONFIGS t)) FRUIT_SEQUENCE)
   \<and> (\<forall>t u. successor t = Some u \<longrightarrow>
         cfg_radius (FRUIT_CONFIGS t) < cfg_radius (FRUIT_CONFIGS u)
         \<and> cfg_points (FRUIT_CONFIGS t) < cfg_points (FRUIT_CONFIGS u))
   \<and> (\<forall>t. t \<noteq> watermelon \<longrightarrow> (\<exists>u. successor t = Some u))
   \<and> length FRUIT_SEQUENCE = 10 \<and> FRUIT_SEQUENCE ! 9 = watermelon \<and> successor watermelon = None
   \<and> (\<forall>now a b sc. a \<noteq> b
         \<and> (f_type (fruits (sc_eng sc) ! a) = watermelon \<or> f_type (fruits (sc_eng sc) ! b) = watermelon)
         \<longrightarrow> noMerge sc (pairStep now a b sc))
   \<and> (\<forall>now s. list_all (\<lambda>f. f_type f = watermelon) (fruits s) \<longrightarrow>
         snd (simulatePhysics now s) = []
         \<and> score (fst (simulatePhysics now s)) = score s
         \<and> map f_id (fruits (fst (simulatePhysics now s))) = map f_id (fruits s)
         \<and> list_all (\<lambda>f. f_type f = watermelon) (fruits (fst (simulatePhysics now s))))"
proof -
  have seq: "sorted_wrt (<) (map (\<lambda>t. cfg_radius (FRUIT_CONFIGS t)) FRUIT_SEQUENCE)"
    "sorted_wrt (<) (map (\<lambda>t. cfg_points (FRUIT_CONFIGS t)) FRUIT_SEQUENCE)"
    by (simp_all add: FRUIT_SEQUENCE_def)
  have sim: "snd (simulatePhysics now s) = []
         \<and> score (fst (simulatePhysics now s)) = score s
         \<and> map f_id (fruits (fst (simulatePhysics now s))) = map f_id (fruits s)
         \<and> list_all (\<lambda>f. f_type f = watermelon) (fruits (fst (simulatePhysics now s)))"
    if "list_all (\<lambda>f. f_type f = watermelon) (fruits s)" for now s
    using melon_funpow[where st = "(s, [])" and now = now and n = 10] that by (simp add: simulatePhysics_def)
  have len: "length FRUIT_SEQUENCE = 10" "FRUIT_SEQUENCE ! 9 = watermelon"
    by (simp_all add: FRUIT_SEQUENCE_def)
  have pw: "\<forall>now a b sc. a \<noteq> b
         \<and> (f_type (fruits (sc_eng sc) ! a) = watermelon \<or> f_type (fruits (sc_eng sc) ! b) = watermelon)
         \<longrightarrow> noMerge sc (pairStep now a b sc)"
    using pairStep_watermelon by blast
  have gr: "\<forall>t u. successor t = Some u \<longrightarrow>
         cfg_radius (FRUIT_CONFIGS t) < cfg_radius (FRUIT_CONFIGS u)
         \<and> cfg_points (FRUIT_CONFIGS t) < cfg_points (FRUIT_CONFIGS u)"
    using successor_grows by blast
  have ex: "\<forall>t. t \<noteq> watermelon \<longrightarrow> (\<exists>u. successor t = Some u)"
    using successor_Some by blast
  show ?thesis
    by (intro conjI seq gr ex len successor_watermelon pw allI impI sim)
qed


text \<open>
  C5. Let the pair step reach two overlapping fruits of the same tier, not watermelon,
  neither marked for removal; let \<open>gap\<close> be their distance, \<open>(nx, ny)\<close> the contact normal
  (the difference of the positions over the distance, or over 1 at distance 0), \<open>shift\<close>
  half the overlap, \<open>closing\<close> the relative velocity along the normal and \<open>impulse\<close> the
  closing velocity times the restitution if the fruits approach, and 0 otherwise. If
  either fruit is younger than the grace window at the time of the step, the step is
  exactly the collision response and nothing else: the first fruit is moved back by
  \<open>shift\<close> along the normal and the second forward, the impulse is added to the velocity
  of the first and subtracted from that of the second, and nothing is merged. If both are
  at least as old as the window, the step is the merge: one event with the two
  identifiers, the successor tier and its points, both fruits marked for removal, and one
  new fruit of the successor tier, created at the time of the step.
\<close>

theorem grace_window_blocks_merge:
  assumes A: "A = fruits (sc_eng sc) ! a" and B: "B = fruits (sc_eng sc) ! b"
    and ab: "a < b" "b < length (fruits (sc_eng sc))"
    and live: "f_id A \<notin> set (sc_toRemove sc)" "f_id B \<notin> set (sc_toRemove sc)"
    and dx: "dx = f_x B - f_x A" and dy: "dy = f_y B - f_y A"
    and gap: "gap = sqrt (dx * dx + dy * dy)"
    and overlap: "gap < f_radius A + f_radius B"
    and tier: "f_type A = f_type B" "f_type A \<noteq> watermelon"
    and shift: "shift = (f_radius A + f_radius B - gap) / 2"
    and nx: "nx = dx / (if gap = 0 then 1 else gap)"
    and ny: "ny = dy / (if gap = 0 then 1 else gap)"
    and closing: "closing = (f_vx B - f_vx A) * nx + (f_vy B - f_vy A) * ny"
    and impulse: "impulse = (if closing < 0 then closing * RESTITUTION else 0)"
  shows "(now - f_dropTime A < INVINCIBILITY_MS \<or> now - f_dropTime B < INVINCIBILITY_MS \<longrightarrow>
            pairStep now a b sc
              = sc\<lparr>sc_eng := (sc_eng sc)\<lparr>fruits := (fruits (sc_eng sc))
                   [a := A\<lparr>f_x := f_x A - shift * nx, f_y := f_y A - shift * ny,
                           f_vx := f_vx A + impulse * nx, f_vy := f_vy A + impulse * ny\<rparr>,
                    b := B\<lparr>f_x := f_x B + shift * nx, f_y := f_y B + shift * ny,
                           f_vx := f_vx B - impulse * nx, f_vy := f_vy B - impulse * ny\<rparr>]\<rparr>\<rparr>
            \<and> noMerge sc (pairStep now a b sc))
     \<and> (INVINCIBILITY_MS \<le> now - f_dropTime A \<and> INVINCIBILITY_MS \<le> now - f_dropTime B \<longrightarrow>
           (\<exists>u. successor (f_type A) = Some u
              \<and> pairStep now a b sc = mergePair now a b sc
              \<and> sc_events (pairStep now a b sc)
                   = sc_events sc @
                     [\<lparr>fruit1Id = f_id A, fruit2Id = f_id B, resultFruitId = uuidsDrawn (sc_eng sc),
                       resultType = u,
                       ev_points = 2 * cfg_points (FRUIT_CONFIGS u)
                                     * min (multiplier (sc_eng sc) + 1) MULTIPLIER_MAX,
                       ev_multiplier = min (multiplier (sc_eng sc) + 1) MULTIPLIER_MAX,
                       position = ((f_x A + f_x B) / 2, (f_y A + f_y B) / 2)\<rparr>]
              \<and> sc_toRemove (pairStep now a b sc) = sc_toRemove sc @ [f_id A, f_id B]
              \<and> map f_type (sc_toAdd (pairStep now a b sc)) = map f_type (sc_toAdd sc) @ [u]
              \<and> f_dropTime (last (sc_toAdd (pairStep now a b sc))) = now))"
proof (intro conjI impI)
  assume g: "now - f_dropTime A < INVINCIBILITY_MS \<or> now - f_dropTime B < INVINCIBILITY_MS"
  have c: "pairStep now a b sc = collide a b dx dy gap (f_radius A + f_radius B) sc"
    using g live overlap tier unfolding pairStep_def Let_def A B dx dy gap by auto
  have r: "resolveCollision A B dx dy gap (f_radius A + f_radius B)
      = (A\<lparr>f_x := f_x A - shift * nx, f_y := f_y A - shift * ny,
            f_vx := f_vx A + impulse * nx, f_vy := f_vy A + impulse * ny\<rparr>,
         B\<lparr>f_x := f_x B + shift * nx, f_y := f_y B + shift * ny,
            f_vx := f_vx B - impulse * nx, f_vy := f_vy B - impulse * ny\<rparr>)"
    unfolding resolveCollision_def Let_def shift nx ny closing impulse by simp
  show "pairStep now a b sc
      = sc\<lparr>sc_eng := (sc_eng sc)\<lparr>fruits := (fruits (sc_eng sc))
                   [a := A\<lparr>f_x := f_x A - shift * nx, f_y := f_y A - shift * ny,
                           f_vx := f_vx A + impulse * nx, f_vy := f_vy A + impulse * ny\<rparr>,
                    b := B\<lparr>f_x := f_x B + shift * nx, f_y := f_y B + shift * ny,
                           f_vx := f_vx B - impulse * nx, f_vy := f_vy B - impulse * ny\<rparr>]\<rparr>\<rparr>"
    unfolding c collide_def Let_def A[symmetric] B[symmetric] r by simp
  show "noMerge sc (pairStep now a b sc)"
    unfolding c using ab by (simp add: noMerge_collide)
next
  assume g: "INVINCIBILITY_MS \<le> now - f_dropTime A \<and> INVINCIBILITY_MS \<le> now - f_dropTime B"
  obtain u where u: "successor (f_type A) = Some u"
    using successor_Some[OF tier(2)] by blast
  have m: "pairStep now a b sc = mergePair now a b sc"
    using g live overlap tier unfolding pairStep_def Let_def A B dx dy gap by auto
  show "\<exists>u. successor (f_type A) = Some u
              \<and> pairStep now a b sc = mergePair now a b sc
              \<and> sc_events (pairStep now a b sc)
                   = sc_events sc @
                     [\<lparr>fruit1Id = f_id A, fruit2Id = f_id B, resultFruitId = uuidsDrawn (sc_eng sc),
                       resultType = u,
                       ev_points = 2 * cfg_points (FRUIT_CONFIGS u)
                                     * min (multiplier (sc_eng sc) + 1) MULTIPLIER_MAX,
                       ev_multiplier = min (multiplier (sc_eng sc) + 1) MULTIPLIER_MAX,
                       position = ((f_x A + f_x B) / 2, (f_y A + f_y B) / 2)\<rparr>]
              \<and> sc_toRemove (pairStep now a b sc) = sc_toRemove sc @ [f_id A, f_id B]
              \<and> map f_type (sc_toAdd (pairStep now a b sc)) = map f_type (sc_toAdd sc) @ [u]
              \<and> f_dropTime (last (sc_toAdd (pairStep now a b sc))) = now"
    unfolding m using u unfolding A B
    by (intro exI[of _ u]) (simp add: mergePair_def Let_def)
qed

section \<open>Concrete runs of the engine\<close>

text \<open>
  Two cherries dropped at time 0 that overlap near the floor, in an engine whose
  multiplier is 5 and whose last merge was at time 0; a drop at the left; an engine with
  one cherry moving upwards near the top and an overflow timer started at time 0; an
  engine with two overlapping watermelons; two cherries ten units apart that approach
  each other.
\<close>

definition oldCherry :: "nat \<Rightarrow> Fruit" where
  "oldCherry i = \<lparr>f_id = i, f_type = cherry, f_x = 200, f_y = 600, f_vx = 0, f_vy = 0,
                  f_radius = 13, f_skinId = None, f_dropTime = 0\<rparr>"

definition board :: GameEngine where
  "board = (newGameEngine ''s'' 0 None)
             \<lparr>fruits := [oldCherry 0, oldCherry 1], uuidsDrawn := 2, multiplier := 5\<rparr>"

definition drop1 :: "(real, jsval option, FruitType) GameInput" where
  "drop1 = \<lparr>in_type = ''drop'', in_x = 1 / 10, in_timestamp = Some (VNumber (Finite 0)),
            in_fruitType = None, in_rest = [(''clientTag'', VString ''a'')]\<rparr>"

definition boardEvent :: MergeEvent where
  "boardEvent = \<lparr>fruit1Id = 0, fruit2Id = 1, resultFruitId = 3, resultType = strawberry,
                  ev_points = 12, ev_multiplier = 2, position = (200, 12009 / 20)\<rparr>"

definition boardAfter :: GameEngine where
  "boardAfter =
     \<lparr>sessionId = ''s'',
      fruits =
        [\<lparr>f_id = 2, f_type = cherry, f_x = 40, f_y = 1972429536481 / 20000000000, f_vx = 0,
          f_vy = 58618940391 / 20000000000, f_radius = 13, f_skinId = None, f_dropTime = 5000\<rparr>,
         \<lparr>f_id = 3, f_type = strawberry, f_x = 200, f_y = 12372429536481 / 20000000000,
          f_vx = 0, f_vy = 58618940391 / 20000000000, f_radius = 18, f_skinId = None,
          f_dropTime = 5000\<rparr>],
      score = 12, nextFruit = cherry, queuedFruit = strawberry, isGameOver = False,
      startTime = 0, lastDropTime = 5000, dropCount = 1,
      inputHistory = [drop1\<lparr>in_fruitType := Some cherry\<rparr>],
      multiplier = 2, lastMergeTime = 5000, overflowStartTime = None,
      skinLoadout = (\<lambda>t. None), uuidsDrawn = 4\<rparr>"

definition rising :: GameEngine where
  "rising = (newGameEngine ''s'' 0 None)
              \<lparr>fruits := [\<lparr>f_id = 0, f_type = cherry, f_x = 300, f_y = 120, f_vx = 0,
                           f_vy = - (42 / 5), f_radius = 13, f_skinId = None, f_dropTime = 0\<rparr>],
               uuidsDrawn := 1, overflowStartTime := Some 0\<rparr>"

definition risingAfter :: GameEngine where
  "risingAfter =
     \<lparr>sessionId = ''s'',
      fruits =
        [\<lparr>f_id = 0, f_type = cherry, f_x = 300, f_y = 8938156689561 / 100000000000, f_vx = 0,
          f_vy = 204812271 / 100000000000, f_radius = 13, f_skinId = None, f_dropTime = 0\<rparr>,
         \<lparr>f_id = 1, f_type = cherry, f_x = 40, f_y = 1972429536481 / 20000000000, f_vx = 0,
          f_vy = 58618940391 / 20000000000, f_radius = 13, f_skinId = None, f_dropTime = 4000\<rparr>],
      score = 0, nextFruit = cherry, queuedFruit = strawberry, isGameOver = False,
      startTime = 0, lastDropTime = 4000, dropCount = 1,
      inputHistory = [drop1\<lparr>in_fruitType := Some cherry\<rparr>],
      multiplier = 1, lastMergeTime = 0, overflowStartTime = Some 0,
      skinLoadout = (\<lambda>t. None), uuidsDrawn = 2\<rparr>"

definition melons :: GameEngine where
  "melons = (newGameEngine ''s'' 0 None)
              \<lparr>fruits := [(oldCherry 0)\<lparr>f_type := watermelon, f_radius := 75\<rparr>,
                          (oldCherry 1)\<lparr>f_type := watermelon, f_radius := 75\<rparr>],
               uuidsDrawn := 2\<rparr>"

lemma sqrt_less_sq: "0 < m \<Longrightarrow> (sqrt d < m) = (d < m * m)"
proof -
  assume m: "0 < m"
  have "sqrt d < sqrt (m * m) \<longleftrightarrow> d < m * m" by (rule real_sqrt_less_iff)
  moreover have "sqrt (m * m) = m" using m by simp
  ultimately show ?thesis by simp
qed

lemma processInput_eq:
  assumes "\<not> isGameOver s" "t1 - startTime s < GAME_DURATION_MS"
    "MIN_DROP_INTERVAL_MS \<le> t2 - lastDropTime s"
  shows "processInput t1 t2 rnd input s
      = (Inr (snd (simulatePhysics t2 (spawned t2 rnd input s))),
         checkOverflow t2 (fst (simulatePhysics t2 (spawned t2 rnd input s))))"
proof -
  obtain r s' where r: "processInput t1 t2 rnd input s = (r, s')"
    by (cases "processInput t1 t2 rnd input s")
  have "\<exists>evs. r = Inr evs"
    using r assms by (auto simp: processInput_def Let_def split: if_splits)
  then obtain evs where "r = Inr evs" by blast
  with r processInput_accepted(4,5)[of t1 t2 rnd input s evs s'] show ?thesis by simp
qed

lemma upt_small:
  "[0..<3] = [0, 1, 2]" "[1..<3] = [1, 2]" "[2..<3] = [2]" "[3..<3] = []"
  "[0..<2] = [0, 1]" "[1..<2] = [1]" "[2..<2] = []" "[0..<1] = [0]" "[1..<1] = []"
  by (simp_all add: upt_rec)

lemmas physics_eval = physicsIteration_def integrate_def Let_def
  scanPairs_def upt_small pairStep_def mergePair_def collide_def resolveCollision_def
  successor_def elemAt_def FRUIT_SEQUENCE_def
  GRAVITY_def FRICTION_def RESTITUTION_def CONTAINER_WIDTH_def CONTAINER_HEIGHT_def
  INVINCIBILITY_MS_def MULTIPLIER_MAX_def orNone_def sqrt_less_sq
  simulatePhysics_def eval_nat_numeral

lemmas control_eval = decayMultiplier_def getNextFromSequence_def checkOverflow_def inDanger_def
  GAME_DURATION_MS_def MIN_DROP_INTERVAL_MS_def MULTIPLIER_DECAY_MS_def DROP_ZONE_HEIGHT_def
  DANGER_ZONE_Y_def OVERFLOW_ALARM_DURATION_MS_def newGameEngine_def spawned_def Let_def
  INITIAL_SEQUENCE_def CONTAINER_WIDTH_def orNone_def

lemma board_spawned:
  "spawned 5000 0 drop1 board
     = board\<lparr>fruits := fruits board @ [\<lparr>f_id = 2, f_type = cherry, f_x = 40, f_y = 80, f_vx = 0,
                 f_vy = 0, f_radius = 13, f_skinId = None, f_dropTime = 5000\<rparr>],
             queuedFruit := strawberry, lastDropTime := 5000, dropCount := 1,
             inputHistory := [drop1\<lparr>in_fruitType := Some cherry\<rparr>],
             multiplier := 1, uuidsDrawn := 3\<rparr>"
  by (simp add: control_eval board_def oldCherry_def drop1_def)

lemma board_simulated: "simulatePhysics 5000 (spawned 5000 0 drop1 board) = (boardAfter, [boardEvent])"
  unfolding board_spawned
  by (simp add: physics_eval board_def oldCherry_def drop1_def newGameEngine_def INITIAL_SEQUENCE_def
      boardAfter_def boardEvent_def)


lemma rising_spawned:
  "spawned 4000 0 drop1 rising
     = rising\<lparr>fruits := fruits rising @ [\<lparr>f_id = 1, f_type = cherry, f_x = 40, f_y = 80, f_vx = 0,
                 f_vy = 0, f_radius = 13, f_skinId = None, f_dropTime = 4000\<rparr>],
             queuedFruit := strawberry, lastDropTime := 4000, dropCount := 1,
             inputHistory := [drop1\<lparr>in_fruitType := Some cherry\<rparr>], uuidsDrawn := 2\<rparr>"
  by (simp add: control_eval rising_def drop1_def)

lemma rising_simulated: "simulatePhysics 4000 (spawned 4000 0 drop1 rising) = (risingAfter, [])"
  unfolding rising_spawned
  by (simp add: physics_eval rising_def drop1_def newGameEngine_def INITIAL_SEQUENCE_def risingAfter_def)

lemma rising_processed:
  "processInput 4000 4000 0 drop1 rising = (Inr [], risingAfter\<lparr>isGameOver := True\<rparr>)"
proof -
  have "processInput 4000 4000 0 drop1 rising
      = (Inr (snd (simulatePhysics 4000 (spawned 4000 0 drop1 rising))),
         checkOverflow 4000 (fst (simulatePhysics 4000 (spawned 4000 0 drop1 rising))))"
    by (rule processInput_eq) (simp_all add: rising_def control_eval)
  also have "\<dots> = (Inr [], checkOverflow 4000 risingAfter)"
    by (simp add: rising_simulated)
  also have "checkOverflow 4000 risingAfter = risingAfter\<lparr>isGameOver := True\<rparr>"
    by (simp add: risingAfter_def control_eval)
  finally show ?thesis .
qed


theorem merge_score_formula_witness:
  "simulatePhysics 5000 (spawned 5000 0 drop1 board) = (boardAfter, [boardEvent])
   \<and> ev_points boardEvent = 2 * cfg_points (FRUIT_CONFIGS (resultType boardEvent)) * ev_multiplier boardEvent
   \<and> ev_multiplier boardEvent = 2
   \<and> score boardAfter = score (spawned 5000 0 drop1 board) + 12"
  using merge_score_formula[OF board_simulated] board_simulated
  by (simp add: boardEvent_def board_spawned MULTIPLIER_MAX_def)


theorem overflow_timing_witness:
  "processInput 4000 4000 0 drop1 rising = (Inr [], risingAfter\<lparr>isGameOver := True\<rparr>)
   \<and> list_ex inDanger (fruits risingAfter)
   \<and> overflowStartTime rising = Some 0
   \<and> \<not> isGameOver risingAfter
   \<and> isGameOver (checkOverflow 3400 risingAfter)
   \<and> checkOverflow 3399 risingAfter = risingAfter"
proof -
  have t: "overflowStartTime rising = Some 0" "\<not> isGameOver risingAfter"
    "overflowStartTime risingAfter = Some 0"
    by (simp_all add: rising_def risingAfter_def)
  have "isGameOver (risingAfter\<lparr>isGameOver := True\<rparr>)" by simp
  with overflow_timing[where s = rising and ?t1.0 = 4000 and ?t2.0 = 4000 and rnd = 0 and input = drop1]
    rising_processed
  have d: "list_ex inDanger (fruits risingAfter)" by simp
  have "(3399::int) - 0 < OVERFLOW_ALARM_DURATION_MS"
    by (simp add: OVERFLOW_ALARM_DURATION_MS_def)
  with overflow_timing[where s = risingAfter and now = 3399] d t
  have k: "checkOverflow 3399 risingAfter = risingAfter" by blast
  have e: "isGameOver (checkOverflow 3400 risingAfter)"
    using d t by (simp add: checkOverflow_def Let_def OVERFLOW_ALARM_DURATION_MS_def)
  show ?thesis using rising_processed d t k e by simp
qed

theorem rejected_input_state_witness:
  "processInput 100 100 0 drop1 (newGameEngine ''s'' 0 None)
     = (Inl ''Dropping too fast'', newGameEngine ''s'' 0 None)
   \<and> fruits (snd (processInput 100 100 0 drop1 (newGameEngine ''s'' 0 None))) = []
   \<and> \<not> isGameOver (snd (processInput 100 100 0 drop1 (newGameEngine ''s'' 0 None)))"
proof -
  have r: "processInput 100 100 0 drop1 (newGameEngine ''s'' 0 None)
     = (Inl ''Dropping too fast'', newGameEngine ''s'' 0 None)"
    by (simp add: processInput_def newGameEngine_def GAME_DURATION_MS_def MIN_DROP_INTERVAL_MS_def)
  from rejected_input_state[OF r] r show ?thesis
    by (simp add: newGameEngine_def)
qed

theorem rejected_input_counterexample:
  "fst (processInput 420000 420000 0 drop1 (newGameEngine ''s'' 0 None)) = Inl ''Game time expired''
   \<and> isGameOver (snd (processInput 420000 420000 0 drop1 (newGameEngine ''s'' 0 None)))
   \<and> \<not> isGameOver (newGameEngine ''s'' 0 None)"
  by (simp add: processInput_def newGameEngine_def GAME_DURATION_MS_def)

theorem tier_monotonicity_witness:
  "successor melon = Some watermelon
   \<and> cfg_radius (FRUIT_CONFIGS melon) < cfg_radius (FRUIT_CONFIGS watermelon)
   \<and> cfg_points (FRUIT_CONFIGS melon) < cfg_points (FRUIT_CONFIGS watermelon)
   \<and> list_all (\<lambda>f. f_type f = watermelon) (fruits melons)
   \<and> snd (simulatePhysics 9000 melons) = []
   \<and> map f_id (fruits (fst (simulatePhysics 9000 melons))) = [0, 1]"
proof -
  have s: "successor melon = Some watermelon"
    by (simp add: successor_def elemAt_def FRUIT_SEQUENCE_def)
  have m: "list_all (\<lambda>f. f_type f = watermelon) (fruits melons)"
    by (simp add: melons_def oldCherry_def)
  have i: "map f_id (fruits melons) = [0, 1]"
    by (simp add: melons_def oldCherry_def)
  from tier_monotonicity s m i show ?thesis by metis
qed

definition nearLeft :: Fruit where
  "nearLeft = \<lparr>f_id = 0, f_type = cherry, f_x = 200, f_y = 600, f_vx = 1, f_vy = 0,
               f_radius = 13, f_skinId = None, f_dropTime = 0\<rparr>"

definition nearRight :: Fruit where
  "nearRight = \<lparr>f_id = 1, f_type = cherry, f_x = 210, f_y = 600, f_vx = - 1, f_vy = 0,
                f_radius = 13, f_skinId = None, f_dropTime = 0\<rparr>"

definition scan1 :: Scan where
  "scan1 = \<lparr>sc_eng = board\<lparr>fruits := [nearLeft, nearRight]\<rparr>,
            sc_toRemove = [], sc_toAdd = [], sc_events = []\<rparr>"

lemma sqrt_100: "sqrt 100 = 10"
  by (rule real_sqrt_unique) simp_all

theorem grace_window_blocks_merge_witness:
  "fruits (sc_eng scan1) = [nearLeft, nearRight]
   \<and> sqrt (10 * 10 + 0 * 0) < f_radius nearLeft + f_radius nearRight
   \<and> 1000 - f_dropTime nearLeft < INVINCIBILITY_MS
   \<and> fruits (sc_eng (pairStep 1000 0 1 scan1))
        = [nearLeft\<lparr>f_x := 192, f_vx := 4 / 5\<rparr>, nearRight\<lparr>f_x := 218, f_vx := - (4 / 5)\<rparr>]
   \<and> sc_events (pairStep 1000 0 1 scan1) = []
   \<and> sc_events (pairStep 1500 0 1 scan1)
        = [\<lparr>fruit1Id = 0, fruit2Id = 1, resultFruitId = 2, resultType = strawberry,
            ev_points = 36, ev_multiplier = 6, position = (205, 600)\<rparr>]
   \<and> sc_toRemove (pairStep 1500 0 1 scan1) = [0, 1]"
proof -
  have fs: "fruits (sc_eng scan1) = [nearLeft, nearRight]"
    by (simp add: scan1_def)
  have A: "nearLeft = fruits (sc_eng scan1) ! 0" and B: "nearRight = fruits (sc_eng scan1) ! 1"
    by (simp_all add: fs)
  have ab: "(0::nat) < 1" "1 < length (fruits (sc_eng scan1))"
    by (simp_all add: fs)
  have live: "f_id nearLeft \<notin> set (sc_toRemove scan1)" "f_id nearRight \<notin> set (sc_toRemove scan1)"
    by (simp_all add: scan1_def)
  have dx: "(10::real) = f_x nearRight - f_x nearLeft"
    and dy: "(0::real) = f_y nearRight - f_y nearLeft"
    by (simp_all add: nearLeft_def nearRight_def)
  have gap: "(10::real) = sqrt (10 * 10 + 0 * 0)"
    by (simp add: sqrt_100)
  have overlap: "(10::real) < f_radius nearLeft + f_radius nearRight"
    by (simp add: nearLeft_def nearRight_def)
  have tier: "f_type nearLeft = f_type nearRight" "f_type nearLeft \<noteq> watermelon"
    by (simp_all add: nearLeft_def nearRight_def)
  have shift: "(8::real) = (f_radius nearLeft + f_radius nearRight - 10) / 2"
    by (simp add: nearLeft_def nearRight_def)
  have nx: "(1::real) = 10 / (if (10::real) = 0 then 1 else 10)"
    and ny: "(0::real) = 0 / (if (10::real) = 0 then 1 else 10)"
    by simp_all
  have closing: "(- 2::real) = (f_vx nearRight - f_vx nearLeft) * 1 + (f_vy nearRight - f_vy nearLeft) * 0"
    by (simp add: nearLeft_def nearRight_def)
  have impulse: "(- (1 / 5)::real) = (if (- 2::real) < 0 then - 2 * RESTITUTION else 0)"
    by (simp add: RESTITUTION_def)
  have young: "1000 - f_dropTime nearLeft < INVINCIBILITY_MS"
    by (simp add: nearLeft_def INVINCIBILITY_MS_def)
  have old: "INVINCIBILITY_MS \<le> 1500 - f_dropTime nearLeft
      \<and> INVINCIBILITY_MS \<le> 1500 - f_dropTime nearRight"
    by (simp add: nearLeft_def nearRight_def INVINCIBILITY_MS_def)
  have suc: "successor (f_type nearLeft) = Some strawberry"
    by (simp add: nearLeft_def successor_def elemAt_def FRUIT_SEQUENCE_def)
  note g1 = grace_window_blocks_merge[OF A B ab live dx dy gap overlap tier shift nx ny closing impulse, of 1000]
  note g2 = grace_window_blocks_merge[OF A B ab live dx dy gap overlap tier shift nx ny closing impulse, of 1500]
  have c: "fruits (sc_eng (pairStep 1000 0 1 scan1))
        = [nearLeft\<lparr>f_x := 192, f_vx := 4 / 5\<rparr>, nearRight\<lparr>f_x := 218, f_vx := - (4 / 5)\<rparr>]"
    "sc_events (pairStep 1000 0 1 scan1) = []"
    using g1 young by (simp_all add: nearLeft_def nearRight_def scan1_def)
  have m: "sc_events (pairStep 1500 0 1 scan1)
        = [\<lparr>fruit1Id = 0, fruit2Id = 1, resultFruitId = 2, resultType = strawberry,
            ev_points = 36, ev_multiplier = 6, position = (205, 600)\<rparr>]"
    "sc_toRemove (pairStep 1500 0 1 scan1) = [0, 1]"
    using g2 old suc by (auto simp: nearLeft_def nearRight_def scan1_def board_def MULTIPLIER_MAX_def)
  have o2: "sqrt (10 * 10 + 0 * 0) < f_radius nearLeft + f_radius nearRight"
    using overlap gap by simp
  show ?thesis using fs o2 young c m by simp
qed

section \<open>Replay codec and digest (services/replay.ts)\<close>

text \<open>
  A \<open>json\<close> is a JSON document, the content of a JSON text: its numbers are finite.
  \<open>jsonOf\<close> is the document \<^verbatim>\<open>JSON.stringify\<close> writes for a value (a number that is not
  finite is written \<^verbatim>\<open>null\<close>), \<open>valueOf\<close> the value \<^verbatim>\<open>JSON.parse\<close> builds from a
  document. Properties are kept in the order listed.
\<close>

datatype json =
  JNull | JBool bool | JNumber real | JString string
| JArray "json list" | JObject "(string \<times> json) list"

fun jsonOfNumber :: "number \<Rightarrow> json" where
  "jsonOfNumber (Finite r) = JNumber r"
| "jsonOfNumber _ = JNull"

primrec jsonOf :: "jsval \<Rightarrow> json" where
  "jsonOf VNull = JNull"
| "jsonOf (VBool b) = JBool b"
| "jsonOf (VNumber n) = jsonOfNumber n"
| "jsonOf (VString s) = JString s"
| "jsonOf (VArray vs) = JArray (map jsonOf vs)"
| "jsonOf (VObject kvs) = JObject (map (map_prod id jsonOf) kvs)"

primrec valueOf :: "json \<Rightarrow> jsval" where
  "valueOf JNull = VNull"
| "valueOf (JBool b) = VBool b"
| "valueOf (JNumber r) = VNumber (Finite r)"
| "valueOf (JString s) = VString s"
| "valueOf (JArray js) = VArray (map valueOf js)"
| "valueOf (JObject kvs) = VObject (map (map_prod id valueOf) kvs)"

text \<open>
  The libraries are parameters. \<open>stringify\<close> writes a document as the UTF-8 text of
  \<^verbatim>\<open>JSON.stringify\<close> and \<open>parse\<close> reads a text back (\<open>None\<close>: it throws);
  \<open>gzipSync\<close> and \<open>gunzipSync\<close> are zlib's (\<open>None\<close>: it throws); \<open>sha256\<close> is the hex
  digest of a text. The argument \<open>inputs\<close> is the array as a value.
\<close>

definition compressReplay :: "(json \<Rightarrow> 'txt) \<Rightarrow> ('txt \<Rightarrow> 'bytes) \<Rightarrow> jsval \<Rightarrow> 'bytes" where
  "compressReplay stringify gzipSync inputs = gzipSync (stringify (jsonOf inputs))"

definition decompressReplay ::
  "('bytes \<Rightarrow> 'txt option) \<Rightarrow> ('txt \<Rightarrow> json option) \<Rightarrow> 'bytes \<Rightarrow> jsval option" where
  "decompressReplay gunzipSync parse data =
     (case gunzipSync data of
        None \<Rightarrow> None
      | Some jsonString \<Rightarrow> (case parse jsonString of None \<Rightarrow> None | Some j \<Rightarrow> Some (valueOf j)))"

text \<open>
  A property read \<^verbatim>\<open>input.key\<close>: the property of an object (the last one listed under
  the key), \<^verbatim>\<open>undefined\<close> (here \<open>None\<close>) if the object has none and on a boolean, a
  number, a string or an array. On \<^verbatim>\<open>null\<close> the read throws; \<open>hashInputs\<close> below checks
  for that case first.
\<close>

fun get :: "jsval \<Rightarrow> string \<Rightarrow> jsval option" where
  "get (VObject kvs) key = map_of (rev kvs) key"
| "get _ key = None"

text \<open>
  The conversion to a number that the product \<^verbatim>\<open>input.x * 1000\<close> applies. On a string,
  an array or an object it is the language's conversion, the parameter \<open>coerce\<close>.
\<close>

fun toNumber :: "(jsval \<Rightarrow> number) \<Rightarrow> jsval option \<Rightarrow> number" where
  "toNumber coerce None = NaN"
| "toNumber coerce (Some VNull) = Finite 0"
| "toNumber coerce (Some (VBool b)) = Finite (if b then 1 else 0)"
| "toNumber coerce (Some (VNumber n)) = n"
| "toNumber coerce (Some v) = coerce v"

text \<open>
  The arithmetic of \<^verbatim>\<open>Math.round(input.x * 1000) / 1000\<close>: \<^verbatim>\<open>NaN\<close> and the infinities
  pass through the product, the rounding and the quotient.
\<close>

fun timesPos :: "number \<Rightarrow> real \<Rightarrow> number" where
  "timesPos (Finite r) c = Finite (r * c)"
| "timesPos n c = n"

fun mathRoundNum :: "number \<Rightarrow> number" where
  "mathRoundNum (Finite r) = Finite (real_of_int (mathRound r))"
| "mathRoundNum n = n"

fun overPos :: "number \<Rightarrow> real \<Rightarrow> number" where
  "overPos (Finite r) c = Finite (r / c)"
| "overPos n c = n"

definition normalizeX :: "number \<Rightarrow> number" where
  "normalizeX n = overPos (mathRoundNum (timesPos n 1000)) 1000"

text \<open>
  A property of the object literal in the document \<^verbatim>\<open>JSON.stringify\<close> writes: left
  out when its value is \<^verbatim>\<open>undefined\<close>.
\<close>

fun written :: "string \<Rightarrow> jsval option \<Rightarrow> (string \<times> json) list" where
  "written key None = []"
| "written key (Some v) = [(key, jsonOf v)]"

definition normalized :: "(jsval \<Rightarrow> number) \<Rightarrow> jsval \<Rightarrow> json" where
  "normalized coerce input =
     JObject (written ''type'' (get input ''type'')
              @ [(''x'', jsonOfNumber (normalizeX (toNumber coerce (get input ''x''))))]
              @ written ''timestamp'' (get input ''timestamp'')
              @ written ''fruitType'' (get input ''fruitType''))"

text \<open>
  \<open>None\<close>: the call throws, which it does when \<open>inputs\<close> is not an array (it has no
  method \<^verbatim>\<open>map\<close>) or when an entry is \<^verbatim>\<open>null\<close>.
\<close>

fun hashInputs ::
  "('txt \<Rightarrow> 'digest) \<Rightarrow> (json \<Rightarrow> 'txt) \<Rightarrow> (jsval \<Rightarrow> number) \<Rightarrow> jsval \<Rightarrow> 'digest option" where
  "hashInputs sha256 stringify coerce (VArray entries) =
     (if VNull \<in> set entries then None
      else Some (sha256 (stringify (JArray (map (normalized coerce) entries)))))"
| "hashInputs sha256 stringify coerce _ = None"

text \<open>Any exception is caught and reported as \<^verbatim>\<open>false\<close>.\<close>

definition verifyReplayIntegrity ::
  "('txt \<Rightarrow> 'digest) \<Rightarrow> (json \<Rightarrow> 'txt) \<Rightarrow> (jsval \<Rightarrow> number) \<Rightarrow> ('bytes \<Rightarrow> 'txt option)
     \<Rightarrow> ('txt \<Rightarrow> json option) \<Rightarrow> 'bytes \<Rightarrow> 'digest \<Rightarrow> bool" where
  "verifyReplayIntegrity sha256 stringify coerce gunzipSync parse data expectedHash =
     (case decompressReplay gunzipSync parse data of
        None \<Rightarrow> False
      | Some inputs \<Rightarrow>
          (case hashInputs sha256 stringify coerce inputs of
             None \<Rightarrow> False
           | Some actualHash \<Rightarrow> actualHash = expectedHash))"

text \<open>
  An input of the log as the object it is: its checked properties \<^verbatim>\<open>type\<close> and \<^verbatim>\<open>x\<close>,
  its \<^verbatim>\<open>timestamp\<close> and \<^verbatim>\<open>fruitType\<close> when present, and its other properties. The known
  properties are listed last, so that a read of \<^verbatim>\<open>type\<close> or \<^verbatim>\<open>x\<close> finds them. Of the
  engine's log, the fruit type is its name.
\<close>

fun optional :: "string \<Rightarrow> jsval option \<Rightarrow> (string \<times> jsval) list" where
  "optional key None = []"
| "optional key (Some v) = [(key, v)]"

definition objectOf :: "(real, jsval option, string) GameInput \<Rightarrow> jsval" where
  "objectOf i =
     VObject (in_rest i
              @ optional ''timestamp'' (in_timestamp i)
              @ optional ''fruitType'' (map_option VString (in_fruitType i))
              @ [(''type'', VString (in_type i)), (''x'', VNumber (Finite (in_x i)))])"

fun fruitName :: "FruitType \<Rightarrow> string" where
  "fruitName cherry = ''cherry''"
| "fruitName strawberry = ''strawberry''"
| "fruitName grape = ''grape''"
| "fruitName persimmon = ''persimmon''"
| "fruitName apple = ''apple''"
| "fruitName pear = ''pear''"
| "fruitName peach = ''peach''"
| "fruitName pineapple = ''pineapple''"
| "fruitName melon = ''melon''"
| "fruitName watermelon = ''watermelon''"

definition storedInput ::
  "(real, jsval option, FruitType) GameInput \<Rightarrow> (real, jsval option, string) GameInput" where
  "storedInput i =
     \<lparr>in_type = in_type i, in_x = in_x i, in_timestamp = in_timestamp i,
      in_fruitType = map_option fruitName (in_fruitType i), in_rest = in_rest i\<rparr>"

definition logValue :: "(real, jsval option, string) GameInput list \<Rightarrow> jsval" where
  "logValue inputs = VArray (map objectOf inputs)"

subsection \<open>Round trip\<close>

lemma jsonOf_valueOf: "jsonOf (valueOf j) = j"
  by (induction j) (auto simp: map_idI prod.map_comp cong: map_cong prod.map_cong)

text \<open>A value after it is written and read back.\<close>

definition reread :: "jsval \<Rightarrow> jsval" where
  "reread v = valueOf (jsonOf v)"

lemma jsonOf_reread: "jsonOf (reread v) = jsonOf v"
  by (simp add: reread_def jsonOf_valueOf)

lemma map_of_map_snd: "map_of (map (map_prod id g) kvs) key = map_option g (map_of kvs key)"
  by (induction kvs) auto

lemma reread_pairs:
  "map (map_prod id valueOf) (map (map_prod id jsonOf) kvs) = map (map_prod id reread) kvs"
  by (induction kvs) (auto simp: reread_def)

lemma reread_object: "reread (VObject kvs) = VObject (map (map_prod id reread) kvs)"
proof -
  have "reread (VObject kvs) = VObject (map (map_prod id valueOf) (map (map_prod id jsonOf) kvs))"
    unfolding reread_def[of "VObject kvs"] by (simp only: jsonOf.simps valueOf.simps)
  then show ?thesis by (simp only: reread_pairs)
qed

lemma get_reread_object: "get (reread (VObject kvs)) key = map_option reread (get (VObject kvs) key)"
  by (simp add: reread_object rev_map map_of_map_snd)

lemma written_reread: "written key (map_option reread v) = written key v"
  by (cases v) (simp_all add: jsonOf_reread)

lemma normalized_reread:
  assumes "get (VObject kvs) ''x'' = Some (VNumber (Finite r))"
  shows "normalized coerce (reread (VObject kvs)) = normalized coerce (VObject kvs)"
proof -
  have "get (reread (VObject kvs)) ''x'' = Some (VNumber (Finite r))"
    using assms by (simp only: get_reread_object) (simp add: reread_def)
  then show ?thesis
    using assms by (simp only: normalized_def get_reread_object written_reread)
qed

lemma decompress_compress:
  assumes "gunzipSync (gzipSync (stringify (jsonOf v))) = Some (stringify (jsonOf v))"
    and "parse (stringify (jsonOf v)) = Some (jsonOf v)"
  shows "decompressReplay gunzipSync parse (compressReplay stringify gzipSync v) = Some (reread v)"
  using assms by (simp add: decompressReplay_def compressReplay_def reread_def)

lemma get_objectOf_x: "\<exists>kvs. objectOf i = VObject kvs \<and> get (VObject kvs) ''x'' = Some (VNumber (Finite (in_x i)))"
  by (simp add: objectOf_def)

lemma reread_array: "reread (VArray vs) = VArray (map reread vs)"
  by (simp add: reread_def comp_def)


lemma normalized_objectOf_reread: "normalized coerce (reread (objectOf i)) = normalized coerce (objectOf i)"
proof -
  obtain kvs where "objectOf i = VObject kvs" "get (VObject kvs) ''x'' = Some (VNumber (Finite (in_x i)))"
    using get_objectOf_x by blast
  then show ?thesis by (simp only: normalized_reread)
qed

lemma objectOf_not_null: "VNull \<noteq> objectOf i" "VNull \<noteq> reread (objectOf i)"
  by (simp_all add: objectOf_def reread_object)

lemma hashInputs_logValue:
  "hashInputs sha256 stringify coerce (logValue inputs)
     = Some (sha256 (stringify (JArray (map (\<lambda>i. normalized coerce (objectOf i)) inputs))))"
  using objectOf_not_null(1) by (auto simp: logValue_def comp_def)

lemma hashInputs_reread_logValue:
  "hashInputs sha256 stringify coerce (reread (logValue inputs))
     = Some (sha256 (stringify (JArray (map (\<lambda>i. normalized coerce (objectOf i)) inputs))))"
proof -
  have "VNull \<notin> set (map (\<lambda>i. reread (objectOf i)) inputs)"
    using objectOf_not_null(2) by auto
  then show ?thesis
    by (simp add: logValue_def reread_array comp_def normalized_objectOf_reread)
qed

text \<open>
  C8. Let the text of the log's document survive zlib and parse back to the document.
  For every input log (objects with the checked properties \<^verbatim>\<open>type\<close> and \<^verbatim>\<open>x\<close>, any or
  no \<^verbatim>\<open>timestamp\<close>, an optional \<^verbatim>\<open>fruitType\<close> and any other properties), decoding the
  encoded log succeeds, and the decoded log has a digest, which is the digest of the
  original log. (The decoded log itself can differ from the original: an infinite
  number in it is read back as \<^verbatim>\<open>null\<close>.)
\<close>

theorem replay_round_trip:
  assumes gz: "gunzipSync (gzipSync (stringify (jsonOf (logValue inputs))))
               = Some (stringify (jsonOf (logValue inputs)))"
    and js: "parse (stringify (jsonOf (logValue inputs))) = Some (jsonOf (logValue inputs))"
  shows "\<exists>decoded digest.
           decompressReplay gunzipSync parse (compressReplay stringify gzipSync (logValue inputs))
             = Some decoded
         \<and> hashInputs sha256 stringify coerce decoded = Some digest
         \<and> hashInputs sha256 stringify coerce (logValue inputs) = Some digest"
proof -
  have "decompressReplay gunzipSync parse (compressReplay stringify gzipSync (logValue inputs))
      = Some (reread (logValue inputs))"
    using gz js by (rule decompress_compress)
  then show ?thesis
    using hashInputs_reread_logValue[of sha256 stringify coerce inputs]
      hashInputs_logValue[of sha256 stringify coerce inputs]
    by blast
qed


section \<open>Session host (routes/game.ts)\<close>

text \<open>
  Modelled from the spec: the persistence store (the Prisma schema
  \<^verbatim>\<open>prisma/schema.prisma\<close> is not among the sources). The rows have the columns
  \<^verbatim>\<open>endGameSession\<close> reads and writes: a session record with end time, final score,
  replay bytes and replay hash; a user with cumulative score, play count and maximal
  score; a best score per (wallet, day) and per (wallet, week). \<open>writes\<close> is a log of the
  write calls, kept by the model to count side effects. An update of a row that does not
  exist throws, and the promise of \<^verbatim>\<open>endGameSession\<close> is then rejected.
\<close>

datatype EndReason = timeout | gameover | manual

datatype DbWrite =
  GameSessionUpdate string | UserUpdate string
| DailyScoreUpsert string int | WeeklyScoreUpsert string int

record ('bytes, 'digest) SessionRow =
  row_userId :: string
  row_walletAddress :: string
  row_endTime :: "int option"
  row_finalScore :: "int option"
  row_replayData :: "'bytes option"
  row_inputsHash :: "'digest option"

record UserRow =
  totalPoints :: int
  gamesPlayed :: int
  highScore :: int

record ScoreRow =
  sr_userId :: string
  sr_walletAddress :: string
  sr_score :: int
  sr_gameSessionId :: string

record ('bytes, 'digest) Db =
  gameSession :: "string \<rightharpoonup> ('bytes, 'digest) SessionRow"
  user :: "string \<rightharpoonup> UserRow"
  dailyScore :: "string \<times> int \<rightharpoonup> ScoreRow"
  weeklyScore :: "string \<times> int \<rightharpoonup> ScoreRow"
  writes :: "DbWrite list"

record ('bytes, 'digest) Host =
  activeSessions :: "string \<rightharpoonup> GameEngine"
  db :: "('bytes, 'digest) Db"

record EndData =
  end_finalScore :: int
  end_totalPoints :: int
  end_isNewHighScore :: bool
  end_reason :: EndReason

text \<open>
  The result of the \<^verbatim>\<open>async\<close> function: the object \<^verbatim>\<open>{ success: false, error }\<close>, the
  object \<^verbatim>\<open>{ success: true, data }\<close>, or a rejected promise.
\<close>

datatype EndResult = Failure string | Success EndData | Rejected

definition msPerDay :: int where
  "msPerDay = 24 * 60 * 60 * 1000"

text \<open>\<^verbatim>\<open>setUTCHours(0, 0, 0, 0)\<close> on a time in milliseconds since the epoch.\<close>

definition utcMidnight :: "int \<Rightarrow> int" where
  "utcMidnight t = t - t mod msPerDay"

text \<open>\<^verbatim>\<open>getUTCDay()\<close>: 0 is Sunday; the epoch was a Thursday.\<close>

definition utcDay :: "int \<Rightarrow> int" where
  "utcDay t = (t div msPerDay + 4) mod 7"

definition mondayOf :: "int \<Rightarrow> int" where
  "mondayOf today =
     (let dayOfWeek = utcDay today;
          diff = (if dayOfWeek = 0 then -6 else 1 - dayOfWeek)
      in today + diff * msPerDay)"

text \<open>
  \<^verbatim>\<open>upsert\<close> on a score table: \<^verbatim>\<open>create\<close> the entry if the key has none, else
  \<^verbatim>\<open>update\<close> the score and the session id of the row found.
\<close>

definition upsert ::
  "(string \<times> int \<rightharpoonup> ScoreRow) \<Rightarrow> string \<times> int \<Rightarrow> ScoreRow \<Rightarrow> (string \<times> int \<rightharpoonup> ScoreRow)" where
  "upsert table key entry =
     table(key \<mapsto> (case table key of
                       None \<Rightarrow> entry
                     | Some old \<Rightarrow> old\<lparr>sr_score := sr_score entry,
                                       sr_gameSessionId := sr_gameSessionId entry\<rparr>))"

text \<open>
  \<^verbatim>\<open>endGameSession\<close>. \<open>t1\<close> and \<open>t2\<close> are the clock readings of \<^verbatim>\<open>getState\<close>, \<open>t3\<close> and
  \<open>t4\<close> the two \<^verbatim>\<open>new Date()\<close>. \<^verbatim>\<open>getState\<close> updates the engine object in place. The
  session is deleted from the live map after the replay is encoded and hashed, and
  before the first write.
\<close>

definition endGameSession ::
  "(json \<Rightarrow> 'txt) \<Rightarrow> ('txt \<Rightarrow> 'bytes) \<Rightarrow> ('txt \<Rightarrow> 'digest) \<Rightarrow> (jsval \<Rightarrow> number)
     \<Rightarrow> int \<Rightarrow> int \<Rightarrow> int \<Rightarrow> int
     \<Rightarrow> string \<Rightarrow> EndReason \<Rightarrow> ('bytes, 'digest) Host \<Rightarrow> EndResult \<times> ('bytes, 'digest) Host" where
  "endGameSession stringify gzipSync sha256 coerce t1 t2 t3 t4 sid reason h =
     (case activeSessions h sid of
        None \<Rightarrow> (Failure ''Game session not found'', h)
      | Some gameEngine \<Rightarrow>
         (let finalState = fst (getState t1 t2 gameEngine);
              engine1 = snd (getState t1 t2 gameEngine);
              finalScore = st_score finalState;
              inputs = logValue (map storedInput (getInputHistory engine1));
              replayData = compressReplay stringify gzipSync inputs
          in case hashInputs sha256 stringify coerce inputs of
               None \<Rightarrow> (Rejected, h\<lparr>activeSessions := (activeSessions h)(sid \<mapsto> engine1)\<rparr>)
             | Some inputsHash \<Rightarrow>
         (let h1 = h\<lparr>activeSessions := (activeSessions h)(sid := None)\<rparr>;
              d = db h1
          in case gameSession d sid of
               None \<Rightarrow> (Rejected, h1)
             | Some row \<Rightarrow>
                (let session = row\<lparr>row_endTime := Some t3, row_finalScore := Some finalScore,
                                   row_replayData := Some replayData,
                                   row_inputsHash := Some inputsHash\<rparr>;
                     d1 = d\<lparr>gameSession := (gameSession d)(sid \<mapsto> session),
                            writes := writes d @ [GameSessionUpdate sid]\<rparr>
                 in case user d1 (row_userId session) of
                      None \<Rightarrow> (Rejected, h1\<lparr>db := d1\<rparr>)
                    | Some sessionUser \<Rightarrow>
                       (let updated = sessionUser
                              \<lparr>totalPoints := totalPoints sessionUser + finalScore,
                               gamesPlayed := gamesPlayed sessionUser + 1,
                               highScore := max (highScore sessionUser) finalScore\<rparr>;
                            d2 = d1\<lparr>user := (user d1)(row_userId session \<mapsto> updated),
                                    writes := writes d1 @ [UserUpdate (row_userId session)]\<rparr>;
                            today = utcMidnight t4;
                            weekStart = mondayOf today;
                            entry = \<lparr>sr_userId = row_userId session,
                                     sr_walletAddress = row_walletAddress session,
                                     sr_score = finalScore, sr_gameSessionId = sid\<rparr>;
                            dailyKey = (row_walletAddress session, today);
                            d3 = d2\<lparr>dailyScore := upsert (dailyScore d2) dailyKey entry,
                                    writes := writes d2 @ [DailyScoreUpsert (row_walletAddress session) today]\<rparr>;
                            weeklyKey = (row_walletAddress session, weekStart);
                            d4 = d3\<lparr>weeklyScore := upsert (weeklyScore d3) weeklyKey entry,
                                    writes := writes d3 @ [WeeklyScoreUpsert (row_walletAddress session) weekStart]\<rparr>
                        in (Success \<lparr>end_finalScore = finalScore,
                                     end_totalPoints = totalPoints updated,
                                     end_isNewHighScore = (finalScore > highScore sessionUser),
                                     end_reason = reason\<rparr>,
                            h1\<lparr>db := d4\<rparr>))))))"

lemma endGameSession_absent:
  "activeSessions h sid = None \<Longrightarrow>
   endGameSession stringify gzipSync sha256 coerce t1 t2 t3 t4 sid reason h
     = (Failure ''Game session not found'', h)"
  by (simp add: endGameSession_def)

lemma getState_frame:
  "st_score (fst (getState t1 t2 e)) = score e" "inputHistory (snd (getState t1 t2 e)) = inputHistory e"
  by (simp_all add: getState_def Let_def decayMultiplier_other)

text \<open>The effect of a successful call, field by field.\<close>

definition sessionEnded ::
  "(json \<Rightarrow> 'txt) \<Rightarrow> ('txt \<Rightarrow> 'bytes) \<Rightarrow> ('txt \<Rightarrow> 'digest) \<Rightarrow> (jsval \<Rightarrow> number) \<Rightarrow> int \<Rightarrow> int
     \<Rightarrow> string \<Rightarrow> EndReason \<Rightarrow> ('bytes, 'digest) Host \<Rightarrow> EndData \<Rightarrow> ('bytes, 'digest) Host \<Rightarrow> bool" where
  "sessionEnded stringify gzipSync sha256 coerce t3 t4 sid reason h d h' =
     (\<exists>e row u digest.
        activeSessions h sid = Some e \<and> gameSession (db h) sid = Some row
        \<and> user (db h) (row_userId row) = Some u
        \<and> hashInputs sha256 stringify coerce (logValue (map storedInput (inputHistory e))) = Some digest
        \<and> d = \<lparr>end_finalScore = score e, end_totalPoints = totalPoints u + score e,
                 end_isNewHighScore = (score e > highScore u), end_reason = reason\<rparr>
        \<and> activeSessions h' = (activeSessions h)(sid := None)
        \<and> gameSession (db h') = (gameSession (db h))(sid \<mapsto>
              row\<lparr>row_endTime := Some t3, row_finalScore := Some (score e),
                   row_replayData := Some (compressReplay stringify gzipSync
                                            (logValue (map storedInput (inputHistory e)))),
                   row_inputsHash := Some digest\<rparr>)
        \<and> user (db h') = (user (db h))(row_userId row \<mapsto>
              u\<lparr>totalPoints := totalPoints u + score e, gamesPlayed := gamesPlayed u + 1,
                 highScore := max (highScore u) (score e)\<rparr>)
        \<and> dailyScore (db h')
             = upsert (dailyScore (db h)) (row_walletAddress row, utcMidnight t4)
                 \<lparr>sr_userId = row_userId row, sr_walletAddress = row_walletAddress row,
                  sr_score = score e, sr_gameSessionId = sid\<rparr>
        \<and> weeklyScore (db h')
             = upsert (weeklyScore (db h)) (row_walletAddress row, mondayOf (utcMidnight t4))
                 \<lparr>sr_userId = row_userId row, sr_walletAddress = row_walletAddress row,
                  sr_score = score e, sr_gameSessionId = sid\<rparr>
        \<and> writes (db h') = writes (db h) @
              [GameSessionUpdate sid, UserUpdate (row_userId row),
               DailyScoreUpsert (row_walletAddress row) (utcMidnight t4),
               WeeklyScoreUpsert (row_walletAddress row) (mondayOf (utcMidnight t4))])"

lemma endGameSession_success:
  assumes "endGameSession stringify gzipSync sha256 coerce t1 t2 t3 t4 sid reason h = (Success d, h')"
  shows "sessionEnded stringify gzipSync sha256 coerce t3 t4 sid reason h d h'"
proof -
  obtain e where e: "activeSessions h sid = Some e"
    using assms by (cases "activeSessions h sid") (simp_all add: endGameSession_def)
  obtain digest where
    dg: "hashInputs sha256 stringify coerce (logValue (map storedInput (inputHistory e))) = Some digest"
    by (simp add: hashInputs_logValue)
  obtain row where row: "gameSession (db h) sid = Some row"
    using assms e dg
    by (cases "gameSession (db h) sid")
      (simp_all add: endGameSession_def Let_def getState_frame getInputHistory_def)
  obtain u where u: "user (db h) (row_userId row) = Some u"
    using assms e dg row
    by (cases "user (db h) (row_userId row)")
      (simp_all add: endGameSession_def Let_def getState_frame getInputHistory_def)
  show ?thesis
    unfolding sessionEnded_def
    using assms e dg row u
    by (auto simp: endGameSession_def Let_def getState_frame getInputHistory_def split: option.splits)
qed


lemma endGameSession_removes:
  "fst (endGameSession stringify gzipSync sha256 coerce t1 t2 t3 t4 sid reason h) \<noteq> Rejected \<Longrightarrow>
   activeSessions (snd (endGameSession stringify gzipSync sha256 coerce t1 t2 t3 t4 sid reason h)) sid = None"
  by (auto simp: endGameSession_def Let_def split: option.splits)

text \<open>
  C1 (as amended). After a first successful \<^verbatim>\<open>endGameSession\<close> for a session id, a
  second call with the same id returns the failure \<^verbatim>\<open>'Game session not found'\<close> and
  leaves the host (live sessions and store) exactly as the first call left it. The first
  call returns the score of the engine, removes the session from the live map and makes
  four writes: one update of the session record, which stores the end time, the final
  score, the encoded replay of the engine's log and its digest; one update of the user,
  which adds the score to the total, counts the game and keeps the maximal score; one
  upsert of the daily and one of the weekly score.
\<close>

theorem finalize_once:
  assumes first: "endGameSession stringify gzipSync sha256 coerce t1 t2 t3 t4 sid reason h = (Success d, h')"
  shows "endGameSession stringify gzipSync sha256 coerce u1 u2 u3 u4 sid reason' h'
        = (Failure ''Game session not found'', h')
     \<and> (\<exists>e row u digest.
          activeSessions h sid = Some e \<and> gameSession (db h) sid = Some row
          \<and> user (db h) (row_userId row) = Some u
          \<and> hashInputs sha256 stringify coerce (logValue (map storedInput (inputHistory e))) = Some digest
          \<and> d = \<lparr>end_finalScore = score e, end_totalPoints = totalPoints u + score e,
                   end_isNewHighScore = (score e > highScore u), end_reason = reason\<rparr>
          \<and> activeSessions h' = (activeSessions h)(sid := None)
          \<and> gameSession (db h') = (gameSession (db h))(sid \<mapsto>
                row\<lparr>row_endTime := Some t3, row_finalScore := Some (score e),
                     row_replayData := Some (compressReplay stringify gzipSync
                                              (logValue (map storedInput (inputHistory e)))),
                     row_inputsHash := Some digest\<rparr>)
          \<and> user (db h') = (user (db h))(row_userId row \<mapsto>
                u\<lparr>totalPoints := totalPoints u + score e, gamesPlayed := gamesPlayed u + 1,
                   highScore := max (highScore u) (score e)\<rparr>)
          \<and> dailyScore (db h')
               = upsert (dailyScore (db h)) (row_walletAddress row, utcMidnight t4)
                   \<lparr>sr_userId = row_userId row, sr_walletAddress = row_walletAddress row,
                    sr_score = score e, sr_gameSessionId = sid\<rparr>
          \<and> weeklyScore (db h')
               = upsert (weeklyScore (db h)) (row_walletAddress row, mondayOf (utcMidnight t4))
                   \<lparr>sr_userId = row_userId row, sr_walletAddress = row_walletAddress row,
                    sr_score = score e, sr_gameSessionId = sid\<rparr>
          \<and> writes (db h') = writes (db h) @
                [GameSessionUpdate sid, UserUpdate (row_userId row),
                 DailyScoreUpsert (row_walletAddress row) (utcMidnight t4),
                 WeeklyScoreUpsert (row_walletAddress row) (mondayOf (utcMidnight t4))])"
proof -
  have "activeSessions h' sid = None"
    using endGameSession_removes[of stringify gzipSync sha256 coerce t1 t2 t3 t4 sid reason h] first
    by simp
  then have "endGameSession stringify gzipSync sha256 coerce u1 u2 u3 u4 sid reason' h'
        = (Failure ''Game session not found'', h')"
    by (rule endGameSession_absent)
  moreover have "sessionEnded stringify gzipSync sha256 coerce t3 t4 sid reason h d h'"
    using first by (rule endGameSession_success)
  ultimately show ?thesis
    unfolding sessionEnded_def by blast
qed

section \<open>Concrete runs of the codec and the host\<close>

text \<open>
  A lossless stand-in for the libraries: the text of a document is the document, the
  compressed bytes of a text are the text, and the digest of a text is the text (so two
  digests are equal exactly when the hashed texts are). The stand-in for the conversion
  of strings, arrays and objects to numbers is constant.
\<close>

definition docText :: "json \<Rightarrow> json" where "docText j = j"
definition docParse :: "json \<Rightarrow> json option" where "docParse t = Some t"
definition plainZip :: "json \<Rightarrow> json" where "plainZip t = t"
definition plainUnzip :: "json \<Rightarrow> json option" where "plainUnzip b = Some b"
definition textDigest :: "json \<Rightarrow> json" where "textDigest t = t"
definition notANumber :: "jsval \<Rightarrow> number" where "notANumber v = NaN"

text \<open>
  A log of three inputs: one with an infinite timestamp and a further property, one
  without a timestamp, one whose timestamp is a string.
\<close>

definition sampleLog :: "(real, jsval option, string) GameInput list" where
  "sampleLog =
     [\<lparr>in_type = ''drop'', in_x = 1 / 4, in_timestamp = Some (VNumber PosInfinity),
       in_fruitType = Some ''cherry'', in_rest = [(''clientTag'', VString ''a'')]\<rparr>,
      \<lparr>in_type = ''drop'', in_x = 1 / 2, in_timestamp = None,
       in_fruitType = Some ''cherry'', in_rest = []\<rparr>,
      \<lparr>in_type = ''drop'', in_x = 1, in_timestamp = Some (VString ''soon''),
       in_fruitType = None, in_rest = []\<rparr>]"

lemma stand_ins:
  "plainUnzip (plainZip (docText j)) = Some (docText j)" "docParse (docText j) = Some j"
  by (simp_all add: plainUnzip_def plainZip_def docParse_def docText_def)

theorem replay_round_trip_witness:
  "decompressReplay plainUnzip docParse (compressReplay docText plainZip (logValue sampleLog))
     \<noteq> Some (logValue sampleLog)
   \<and> (\<exists>decoded digest.
         decompressReplay plainUnzip docParse (compressReplay docText plainZip (logValue sampleLog))
           = Some decoded
       \<and> hashInputs textDigest docText notANumber decoded = Some digest
       \<and> hashInputs textDigest docText notANumber (logValue sampleLog) = Some digest)
   \<and> hashInputs textDigest docText notANumber (logValue sampleLog)
       = Some (JArray
           [JObject [(''type'', JString ''drop''), (''x'', JNumber (1 / 4)), (''timestamp'', JNull),
                     (''fruitType'', JString ''cherry'')],
            JObject [(''type'', JString ''drop''), (''x'', JNumber (1 / 2)),
                     (''fruitType'', JString ''cherry'')],
            JObject [(''type'', JString ''drop''), (''x'', JNumber 1),
                     (''timestamp'', JString ''soon'')]])"
proof -
  have ne: "decompressReplay plainUnzip docParse (compressReplay docText plainZip (logValue sampleLog))
      \<noteq> Some (logValue sampleLog)"
    by (simp add: decompressReplay_def compressReplay_def plainUnzip_def plainZip_def docParse_def
        docText_def logValue_def sampleLog_def objectOf_def)
  have dg: "hashInputs textDigest docText notANumber (logValue sampleLog)
       = Some (JArray
           [JObject [(''type'', JString ''drop''), (''x'', JNumber (1 / 4)), (''timestamp'', JNull),
                     (''fruitType'', JString ''cherry'')],
            JObject [(''type'', JString ''drop''), (''x'', JNumber (1 / 2)),
                     (''fruitType'', JString ''cherry'')],
            JObject [(''type'', JString ''drop''), (''x'', JNumber 1),
                     (''timestamp'', JString ''soon'')]])"
    by (simp add: logValue_def sampleLog_def objectOf_def normalized_def normalizeX_def mathRound_def
        textDigest_def docText_def)
  from replay_round_trip[where gunzipSync = plainUnzip and gzipSync = plainZip and parse = docParse
      and stringify = docText and ?sha256.0 = textDigest and coerce = notANumber and inputs = sampleLog,
      OF stand_ins] ne dg
  show ?thesis by blast
qed


text \<open>
  A host with one live session, of a new engine, and a host whose live session is the
  engine \<open>boardAfter\<close> (score 12, one input in its log) of a user who has played twice.
\<close>

definition host0 :: "(json, json) Host" where
  "host0 =
     \<lparr>activeSessions = [''s1'' \<mapsto> newGameEngine ''s1'' 0 None],
      db = \<lparr>gameSession = [''s1'' \<mapsto> \<lparr>row_userId = ''u1'', row_walletAddress = ''w1'',
                                        row_endTime = None, row_finalScore = None,
                                        row_replayData = None, row_inputsHash = None\<rparr>],
             user = [''u1'' \<mapsto> \<lparr>totalPoints = 0, gamesPlayed = 0, highScore = 0\<rparr>],
             dailyScore = Map.empty, weeklyScore = Map.empty, writes = []\<rparr>\<rparr>"

definition host1 :: "(json, json) Host" where
  "host1 =
     \<lparr>activeSessions = [''s1'' \<mapsto> boardAfter],
      db = \<lparr>gameSession = [''s1'' \<mapsto> \<lparr>row_userId = ''u1'', row_walletAddress = ''w1'',
                                        row_endTime = None, row_finalScore = None,
                                        row_replayData = None, row_inputsHash = None\<rparr>],
             user = [''u1'' \<mapsto> \<lparr>totalPoints = 30, gamesPlayed = 2, highScore = 10\<rparr>],
             dailyScore = Map.empty, weeklyScore = Map.empty, writes = []\<rparr>\<rparr>"

definition boardReplay :: json where
  "boardReplay =
     JArray [JObject [(''clientTag'', JString ''a''), (''timestamp'', JNumber 0),
                      (''fruitType'', JString ''cherry''), (''type'', JString ''drop''),
                      (''x'', JNumber (1 / 10))]]"

definition boardDigest :: json where
  "boardDigest =
     JArray [JObject [(''type'', JString ''drop''), (''x'', JNumber (1 / 10)),
                      (''timestamp'', JNumber 0), (''fruitType'', JString ''cherry'')]]"

lemma boardAfter_log:
  "score boardAfter = 12"
  "compressReplay docText plainZip (logValue (map storedInput (inputHistory boardAfter))) = boardReplay"
  "hashInputs textDigest docText notANumber (logValue (map storedInput (inputHistory boardAfter)))
     = Some boardDigest"
  by (simp_all add: boardAfter_def drop1_def storedInput_def logValue_def objectOf_def
      compressReplay_def docText_def plainZip_def textDigest_def normalized_def normalizeX_def
      mathRound_def boardReplay_def boardDigest_def)

lemma host0_first:
  "fst (endGameSession docText plainZip textDigest notANumber 1000 1000 1000 1000 ''s1'' manual host0)
     = Success \<lparr>end_finalScore = 0, end_totalPoints = 0, end_isNewHighScore = False,
                end_reason = manual\<rparr>"
  by (simp add: endGameSession_def host0_def Let_def getState_frame getInputHistory_def
      hashInputs_logValue newGameEngine_def)

lemma host1_first:
  "fst (endGameSession docText plainZip textDigest notANumber 1000 1000 1000 1000 ''s1'' manual host1)
     = Success \<lparr>end_finalScore = 12, end_totalPoints = 42, end_isNewHighScore = True,
                end_reason = manual\<rparr>"
  by (simp add: endGameSession_def host1_def Let_def getState_frame getInputHistory_def
      hashInputs_logValue boardAfter_log(1))

theorem finalize_once_witness:
  "fst (endGameSession docText plainZip textDigest notANumber 1000 1000 1000 1000 ''s1'' manual host1)
     = Success \<lparr>end_finalScore = 12, end_totalPoints = 42, end_isNewHighScore = True,
                end_reason = manual\<rparr>
   \<and> endGameSession docText plainZip textDigest notANumber 2000 2000 2000 2000 ''s1'' timeout
        (snd (endGameSession docText plainZip textDigest notANumber 1000 1000 1000 1000 ''s1'' manual host1))
       = (Failure ''Game session not found'',
          snd (endGameSession docText plainZip textDigest notANumber 1000 1000 1000 1000 ''s1'' manual host1))
   \<and> gameSession (db (snd (endGameSession docText plainZip textDigest notANumber 1000 1000 1000 1000
                                ''s1'' manual host1))) ''s1''
       = Some \<lparr>row_userId = ''u1'', row_walletAddress = ''w1'', row_endTime = Some 1000,
               row_finalScore = Some 12, row_replayData = Some boardReplay,
               row_inputsHash = Some boardDigest\<rparr>
   \<and> user (db (snd (endGameSession docText plainZip textDigest notANumber 1000 1000 1000 1000
                         ''s1'' manual host1))) ''u1''
       = Some \<lparr>totalPoints = 42, gamesPlayed = 3, highScore = 12\<rparr>
   \<and> writes (db (snd (endGameSession docText plainZip textDigest notANumber 1000 1000 1000 1000
                           ''s1'' manual host1)))
       = [GameSessionUpdate ''s1'', UserUpdate ''u1'', DailyScoreUpsert ''w1'' 0,
          WeeklyScoreUpsert ''w1'' (- 259200000)]"
proof -
  let ?r = "endGameSession docText plainZip textDigest notANumber 1000 1000 1000 1000 ''s1'' manual host1"
  have first: "?r = (Success \<lparr>end_finalScore = 12, end_totalPoints = 42, end_isNewHighScore = True,
                end_reason = manual\<rparr>, snd ?r)"
    using host1_first by (metis prod.collapse)
  have h: "activeSessions host1 ''s1'' = Some boardAfter"
    "gameSession (db host1) ''s1'' = Some \<lparr>row_userId = ''u1'', row_walletAddress = ''w1'',
        row_endTime = None, row_finalScore = None, row_replayData = None, row_inputsHash = None\<rparr>"
    "user (db host1) ''u1'' = Some \<lparr>totalPoints = 30, gamesPlayed = 2, highScore = 10\<rparr>"
    "writes (db host1) = []"
    by (simp_all add: host1_def)
  have days: "utcMidnight 1000 = 0" "mondayOf 0 = - 259200000"
    by (simp_all add: utcMidnight_def mondayOf_def utcDay_def msPerDay_def Let_def)
  from finalize_once[OF first, where ?u1.0 = 2000 and ?u2.0 = 2000 and ?u3.0 = 2000 and ?u4.0 = 2000
      and reason' = timeout]
  show ?thesis
    using host1_first by (auto simp: h boardAfter_log days)
qed

theorem finalize_twice_counterexample:
  "fst (endGameSession docText plainZip textDigest notANumber 1000 1000 1000 1000 ''s1'' manual host0)
     = Success \<lparr>end_finalScore = 0, end_totalPoints = 0, end_isNewHighScore = False,
                end_reason = manual\<rparr>
   \<and> fst (endGameSession docText plainZip textDigest notANumber 2000 2000 2000 2000 ''s1'' manual
        (snd (endGameSession docText plainZip textDigest notANumber 1000 1000 1000 1000 ''s1'' manual host0)))
       = Failure ''Game session not found''"
proof -
  have "activeSessions
      (snd (endGameSession docText plainZip textDigest notANumber 1000 1000 1000 1000 ''s1'' manual host0))
      ''s1'' = None"
    by (rule endGameSession_removes) (simp add: host0_first)
  then show ?thesis
    using host0_first by (simp add: endGameSession_absent)
qed

end
